theory Spec2Isabelle
  imports Main
begin

section \<open>Python values\<close>

text \<open>
  The values that travel through the server are the ones \<^verbatim>\<open>json.loads\<close> produces and
  \<^verbatim>\<open>json.dumps\<close> accepts. A \<^verbatim>\<open>str\<close> is kept as its UTF-8 encoding, a \<^verbatim>\<open>dict\<close> as an
  association list in insertion order, and a \<^verbatim>\<open>float\<close> as the numeral text that denotes it
  (no definition below computes with floats; what Python does with one is a parameter).
\<close>

datatype json =
    JNull
  | JBool bool
  | JInt int
  | JFloat string
  | JStr string
  | JList "json list"
  | JObj "(string \<times> json) list"

type_synonym dict = "(string \<times> json) list"

text \<open>\<^verbatim>\<open>d[k] = v\<close>: an existing key keeps its position, a new key goes to the end.\<close>

fun dict_set :: "(string \<times> 'v) list \<Rightarrow> string \<Rightarrow> 'v \<Rightarrow> (string \<times> 'v) list" where
  "dict_set [] k v = [(k, v)]"
| "dict_set ((k', v') # d) k v =
     (if k' = k then (k, v) # d else (k', v') # dict_set d k v)"

text \<open>\<^verbatim>\<open>d.get(k, default)\<close>\<close>

definition dict_get :: "(string \<times> 'v) list \<Rightarrow> string \<Rightarrow> 'v \<Rightarrow> 'v" where
  "dict_get d k dflt = (case map_of d k of None \<Rightarrow> dflt | Some v \<Rightarrow> v)"

text \<open>\<^verbatim>\<open>d.update(e)\<close>\<close>

definition dict_update :: "(string \<times> 'v) list \<Rightarrow> (string \<times> 'v) list \<Rightarrow> (string \<times> 'v) list" where
  "dict_update d e = foldl (\<lambda>acc (k, v). dict_set acc k v) d e"

section \<open>Exceptions\<close>

text \<open>
  \<open>Exc m\<close> is an instance of \<^verbatim>\<open>Exception\<close> raised by a handler body or a collaborator, with
  \<^verbatim>\<open>str(e) = m\<close>; \<open>BaseExc m\<close> is an exception outside \<^verbatim>\<open>Exception\<close> (\<^verbatim>\<open>SystemExit\<close>,
  \<^verbatim>\<open>KeyboardInterrupt\<close>), which \<^verbatim>\<open>except Exception\<close> does not catch. The others are the
  errors the interpreter itself raises in the dispatch code, all instances of \<^verbatim>\<open>Exception\<close>:
  \<^descr> \<open>AttributeError v a\<close>: attribute \<open>a\<close> read on a value \<open>v\<close> that lacks it;
  \<^descr> \<open>Unhashable v\<close>: a list or dict used as a dictionary key;
  \<^descr> \<open>NotAMapping f v\<close>: \<^verbatim>\<open>f(**v)\<close> where \<open>v\<close> is not a mapping;
  \<^descr> \<open>UnexpectedKeyword f k\<close>, \<open>MultipleValues f k\<close>, \<open>MissingArguments f ks\<close>: the three
    ways binding keyword arguments to the parameters of \<open>f\<close> fails.
\<close>

datatype exn =
    Exc string
  | BaseExc string
  | AttributeError json string
  | Unhashable json
  | NotAMapping string json
  | UnexpectedKeyword string string
  | MultipleValues string string
  | MissingArguments string "string list"

fun is_Exception :: "exn \<Rightarrow> bool" where
  "is_Exception (BaseExc m) = False"
| "is_Exception e = True"

text \<open>
  What the interpreter decides and the source does not: the wording of the errors it
  raises, how a value that is not a \<^verbatim>\<open>str\<close> is formatted in an f-string, and the float
  operations (truth value, \<^verbatim>\<open>round(x, 2)\<close>).
\<close>

record interp =
  exn_text :: "exn \<Rightarrow> string"
  format :: "json \<Rightarrow> string"
  float_truthy :: "string \<Rightarrow> bool"
  round2 :: "string \<Rightarrow> string"

text \<open>\<^verbatim>\<open>str(e)\<close>\<close>

fun str_exn :: "interp \<Rightarrow> exn \<Rightarrow> string" where
  "str_exn py (Exc m) = m"
| "str_exn py (BaseExc m) = m"
| "str_exn py e = exn_text py e"

text \<open>\<^verbatim>\<open>f"{v}"\<close>\<close>

fun py_str :: "interp \<Rightarrow> json \<Rightarrow> string" where
  "py_str py (JStr s) = s"
| "py_str py JNull = ''None''"
| "py_str py (JBool b) = (if b then ''True'' else ''False'')"
| "py_str py v = format py v"

text \<open>The truth value of \<^verbatim>\<open>if v:\<close>\<close>

fun truthy :: "interp \<Rightarrow> json \<Rightarrow> bool" where
  "truthy py JNull = False"
| "truthy py (JBool b) = b"
| "truthy py (JInt i) = (i \<noteq> 0)"
| "truthy py (JFloat x) = float_truthy py x"
| "truthy py (JStr s) = (s \<noteq> [])"
| "truthy py (JList xs) = (xs \<noteq> [])"
| "truthy py (JObj d) = (d \<noteq> [])"

section \<open>The host: scene state and collaborators\<close>

record obj =
  obj_name :: string
  obj_type :: string
  location :: "string \<times> string \<times> string"
  modifiers :: "string list"

text \<open>
  \<open>objects\<close> is \<^verbatim>\<open>bpy.context.scene.objects\<close> in scene order, \<open>materials\<close> and
  \<open>collections\<close> are the names in \<^verbatim>\<open>bpy.data\<close>, and the two flags are the scene properties
  that the configuration panel toggles.
\<close>

record blender =
  scene_name :: string
  frame_current :: int
  frame_start :: int
  frame_end :: int
  objects :: "obj list"
  materials :: "string list"
  collections :: "string list"
  blendermcp_use_polyhaven :: bool
  blendermcp_use_hyper3d :: bool

text \<open>
  The collaborators of the handlers:
  \<^descr> \<open>scene_engine\<close>: the body of every handler that is not modelled below, by method
    name, on the bound keyword arguments. It returns a result or raises, and leaves a new
    host state either way.
  \<^descr> \<open>requests_get\<close>: the Asset Provider behind \<^verbatim>\<open>requests.get(url, params=...)\<close>. The call
    raises or gives a response, whose \<^verbatim>\<open>.json()\<close> raises or gives a value.
  \<^descr> \<open>py_exec\<close>: \<^verbatim>\<open>exec(code, namespace)\<close> under \<^verbatim>\<open>redirect_stdout\<close>. It raises or gives the
    captured output.
\<close>

record http_response =
  status_code :: int
  json_body :: "exn + json"

type_synonym requests = "string \<Rightarrow> dict \<Rightarrow> exn + http_response"

record collab =
  scene_engine :: "string \<Rightarrow> dict \<Rightarrow> blender \<Rightarrow> (exn + json) \<times> blender"
  requests_get :: requests
  py_exec :: "json \<Rightarrow> blender \<Rightarrow> (exn + string) \<times> blender"

section \<open>Handlers\<close>

text \<open>\<^verbatim>\<open>get_scene_info\<close>: the first ten objects, and the count of all of them.\<close>

definition obj_info :: "interp \<Rightarrow> obj \<Rightarrow> json" where
  "obj_info py ob =
     (case location ob of (x, y, z) \<Rightarrow>
        JObj [(''name'', JStr (obj_name ob)),
              (''type'', JStr (obj_type ob)),
              (''location'', JList [JFloat (round2 py x), JFloat (round2 py y), JFloat (round2 py z)])])"

definition get_scene_info :: "interp \<Rightarrow> blender \<Rightarrow> json" where
  "get_scene_info py w =
     JObj [(''name'', JStr (scene_name w)),
           (''frame_current'', JInt (frame_current w)),
           (''frame_start'', JInt (frame_start w)),
           (''frame_end'', JInt (frame_end w)),
           (''object_count'', JInt (int (length (objects w)))),
           (''objects'', JList (map (obj_info py) (take 10 (objects w)))),
           (''materials_count'', JInt (int (length (materials w)))),
           (''collections'', JList (map JStr (collections w)))]"

text \<open>
  \<^verbatim>\<open>try: ... except Exception as e: return {"error": str(e)}\<close>, the frame of both Polyhaven
  handlers: an \<^verbatim>\<open>Exception\<close> becomes an ordinary return value, anything else propagates.
\<close>

definition error_dict :: "interp \<Rightarrow> exn + json \<Rightarrow> exn + json" where
  "error_dict py r =
     (case r of
        Inl e \<Rightarrow> if is_Exception e then Inr (JObj [(''error'', JStr (str_exn py e))]) else Inl e
      | Inr v \<Rightarrow> Inr v)"

definition api_failed :: "interp \<Rightarrow> http_response \<Rightarrow> json" where
  "api_failed py r =
     JObj [(''error'', JStr (''API request failed with status code '' @ py_str py (JInt (status_code r))))]"

definition invalid_asset_type :: "interp \<Rightarrow> json \<Rightarrow> json" where
  "invalid_asset_type py asset_type =
     JObj [(''error'', JStr (''Invalid asset type: '' @ py_str py asset_type
                             @ ''. Must be one of: hdris, textures, models, all''))]"

definition get_polyhaven_categories :: "interp \<Rightarrow> requests \<Rightarrow> json \<Rightarrow> exn + json" where
  "get_polyhaven_categories py req asset_type =
     error_dict py
       (if asset_type \<notin> set (map JStr [''hdris'', ''textures'', ''models'', ''all''])
        then Inr (invalid_asset_type py asset_type)
        else (case req (''https://api.polyhaven.com/categories/'' @ py_str py asset_type) [] of
                Inl e \<Rightarrow> Inl e
              | Inr r \<Rightarrow>
                  if status_code r = 200
                  then (case json_body r of
                          Inl e \<Rightarrow> Inl e
                        | Inr v \<Rightarrow> Inr (JObj [(''categories'', v)]))
                  else Inr (api_failed py r)))"

definition limit_assets :: "json \<Rightarrow> exn + json" where
  "limit_assets assets =
     (case assets of
        JObj d \<Rightarrow>
          Inr (JObj [(''assets'', JObj (take 20 d)),
                     (''total_count'', JInt (int (length d))),
                     (''returned_count'', JInt (int (length (take 20 d))))])
      | _ \<Rightarrow> Inl (AttributeError assets ''items''))"

definition search_polyhaven_assets :: "interp \<Rightarrow> requests \<Rightarrow> json \<Rightarrow> json \<Rightarrow> exn + json" where
  "search_polyhaven_assets py req asset_type categories =
     error_dict py
       (if truthy py asset_type \<and> asset_type \<noteq> JStr ''all''
           \<and> asset_type \<notin> set (map JStr [''hdris'', ''textures'', ''models''])
        then Inr (invalid_asset_type py asset_type)
        else
          (let params = (if truthy py asset_type \<and> asset_type \<noteq> JStr ''all''
                         then [(''type'', asset_type)] else [])
                      @ (if truthy py categories then [(''categories'', categories)] else [])
           in case req ''https://api.polyhaven.com/assets'' params of
                Inl e \<Rightarrow> Inl e
              | Inr r \<Rightarrow>
                  if status_code r = 200
                  then (case json_body r of Inl e \<Rightarrow> Inl e | Inr assets \<Rightarrow> limit_assets assets)
                  else Inr (api_failed py r)))"

text \<open>
  \<^verbatim>\<open>execute_code\<close>: an \<^verbatim>\<open>Exception\<close> of the executed code is raised again as an
  \<^verbatim>\<open>Exception\<close> with a prefixed description; anything else passes through.
\<close>

definition execute_code ::
  "interp \<Rightarrow> collab \<Rightarrow> json \<Rightarrow> blender \<Rightarrow> (exn + json) \<times> blender" where
  "execute_code py co code w =
     (case py_exec co code w of
        (Inl e, w') \<Rightarrow>
          if is_Exception e then (Inl (Exc (''Code execution error: '' @ str_exn py e)), w')
          else (Inl e, w')
      | (Inr captured_output, w') \<Rightarrow>
          (Inr (JObj [(''executed'', JBool True), (''result'', JStr captured_output)]), w'))"

section \<open>Dispatch\<close>

text \<open>
  The parameter list of every handler method, as its \<^verbatim>\<open>def\<close> line gives it: the names
  without a default, the names with one, and whether the method takes \<^verbatim>\<open>**kwargs\<close>.
\<close>

datatype signature = Sig (required: "string list") (optional: "string list") (var_keyword: bool)

definition signatures :: "(string \<times> signature) list" where
  "signatures =
    [(''get_scene_info'', Sig [] [] False),
     (''get_object_info'', Sig [''name''] [] False),
     (''execute_code'', Sig [''code''] [] False),
     (''add_primitive'', Sig [] [''primitive_type'', ''location'', ''rotation'', ''scale'', ''name''] False),
     (''add_curve'', Sig [] [''curve_type'', ''location'', ''name''] False),
     (''add_text'', Sig [] [''text'', ''location'', ''name''] False),
     (''add_empty'', Sig [] [''empty_type'', ''location'', ''name''] False),
     (''add_light'', Sig [] [''light_type'', ''location'', ''energy'', ''name''] False),
     (''add_camera'', Sig [] [''location'', ''rotation'', ''name''] False),
     (''transform_object'', Sig [''name''] [''location'', ''rotation'', ''scale'', ''relative''] False),
     (''duplicate_object'', Sig [''name''] [''linked''] False),
     (''delete_object'', Sig [''name''] [] False),
     (''rename_object'', Sig [''old_name'', ''new_name''] [] False),
     (''parent_object'', Sig [''child_name'', ''parent_name''] [''keep_transform''] False),
     (''join_objects'', Sig [''object_names''] [] False),
     (''enter_edit_mode'', Sig [''object_name''] [] False),
     (''exit_edit_mode'', Sig [] [] False),
     (''select_all'', Sig [] [''action''] False),
     (''extrude_mesh'', Sig [''object_name''] [''distance'', ''direction''] False),
     (''subdivide_mesh'', Sig [''object_name''] [''cuts''] False),
     (''bevel_mesh'', Sig [''object_name''] [''offset'', ''segments''] False),
     (''inset_faces'', Sig [''object_name''] [''thickness''] False),
     (''loop_cut'', Sig [''object_name''] [''number_cuts''] False),
     (''merge_vertices'', Sig [''object_name''] [''merge_type''] False),
     (''add_modifier'', Sig [''object_name'', ''modifier_type''] [] True),
     (''remove_modifier'', Sig [''object_name'', ''modifier_name''] [] False),
     (''apply_modifier'', Sig [''object_name'', ''modifier_name''] [] False),
     (''list_modifiers'', Sig [''object_name''] [] False),
     (''create_material'', Sig [''name''] [''color'', ''metallic'', ''roughness''] False),
     (''assign_material'', Sig [''object_name'', ''material_name''] [] False),
     (''set_material_color'', Sig [''material_name'', ''color''] [] False),
     (''set_smooth_shading'', Sig [''object_name''] [''smooth''] False),
     (''set_keyframe'', Sig [''object_name'', ''data_path''] [''frame'', ''value''] False),
     (''set_frame'', Sig [''frame''] [] False),
     (''get_frame_range'', Sig [] [] False),
     (''set_render_settings'', Sig [] [''engine'', ''samples'', ''resolution_x'', ''resolution_y''] False),
     (''render_image'', Sig [] [''filepath''] False),
     (''render_animation'', Sig [] [''filepath''] False),
     (''create_collection'', Sig [''name''] [] False),
     (''link_to_collection'', Sig [''object_name'', ''collection_name''] [] False),
     (''get_polyhaven_status'', Sig [] [] False),
     (''get_hyper3d_status'', Sig [] [] False),
     (''get_polyhaven_categories'', Sig [''asset_type''] [] False),
     (''search_polyhaven_assets'', Sig [] [''asset_type'', ''categories''] False),
     (''download_polyhaven_asset'', Sig [''asset_id'', ''asset_type''] [''resolution'', ''file_format''] False),
     (''set_texture'', Sig [''object_name'', ''texture_id''] [] False),
     (''create_rodin_job'', Sig [] [] True),
     (''poll_rodin_job_status'', Sig [] [] True),
     (''import_generated_asset'', Sig [] [] True)]"

definition signature_of :: "string \<Rightarrow> signature" where
  "signature_of f = dict_get signatures f (Sig [] [] False)"

text \<open>
  \<^verbatim>\<open>handler(**params)\<close> on a bound method: the keywords are matched in the order of the
  mapping, and the first one that names \<^verbatim>\<open>self\<close> or (without \<^verbatim>\<open>**kwargs\<close>) no parameter
  raises; then the required parameters left without a value raise. No statement of the
  body has run when either happens.
\<close>

fun keyword_error :: "string \<Rightarrow> signature \<Rightarrow> string list \<Rightarrow> exn option" where
  "keyword_error f sg [] = None"
| "keyword_error f sg (k # ks) =
     (if k = ''self'' then Some (MultipleValues f k)
      else if k \<in> set (required sg) \<or> k \<in> set (optional sg) \<or> var_keyword sg
      then keyword_error f sg ks
      else Some (UnexpectedKeyword f k))"

definition bind_error :: "string \<Rightarrow> signature \<Rightarrow> string list \<Rightarrow> exn option" where
  "bind_error f sg ks =
     (case keyword_error f sg ks of
        Some e \<Rightarrow> Some e
      | None \<Rightarrow>
          (case filter (\<lambda>r. r \<notin> set ks) (required sg) of
             [] \<Rightarrow> None
           | missing \<Rightarrow> Some (MissingArguments f missing)))"

text \<open>
  The body of method \<open>f\<close> on its bound arguments. The four handlers above are the source's;
  every other body belongs to the Scene Engine. (\<^verbatim>\<open>get_scene_info\<close> also has the frame
  \<^verbatim>\<open>except Exception as e: return {"error": str(e)}\<close>; reading a \<open>blender\<close> record raises
  nothing, so the frame has no branch here.)
\<close>

definition handler_body ::
  "interp \<Rightarrow> collab \<Rightarrow> string \<Rightarrow> dict \<Rightarrow> blender \<Rightarrow> (exn + json) \<times> blender" where
  "handler_body py co f kw w =
     (if f = ''get_scene_info'' then (Inr (get_scene_info py w), w)
      else if f = ''execute_code'' then execute_code py co (dict_get kw ''code'' JNull) w
      else if f = ''get_polyhaven_categories''
      then (get_polyhaven_categories py (requests_get co) (dict_get kw ''asset_type'' JNull), w)
      else if f = ''search_polyhaven_assets''
      then (search_polyhaven_assets py (requests_get co) (dict_get kw ''asset_type'' JNull)
              (dict_get kw ''categories'' JNull), w)
      else scene_engine co f kw w)"

definition call_handler ::
  "interp \<Rightarrow> collab \<Rightarrow> string \<Rightarrow> json \<Rightarrow> blender \<Rightarrow> (exn + json) \<times> blender" where
  "call_handler py co f params w =
     (case params of
        JObj kw \<Rightarrow>
          (case bind_error f (signature_of f) (map fst kw) of
             Some e \<Rightarrow> (Inl e, w)
           | None \<Rightarrow> handler_body py co f kw w)
      | _ \<Rightarrow> (Inl (NotAMapping f params), w))"

text \<open>The handler table of \<^verbatim>\<open>_execute_command_internal\<close>: command name to method name.\<close>

definition self_method :: "string \<Rightarrow> string \<times> string" where
  "self_method f = (f, f)"

definition base_handlers :: "(string \<times> string) list" where
  "base_handlers = map self_method
    [''get_scene_info'', ''get_object_info'', ''execute_code'',
     ''add_primitive'', ''add_curve'', ''add_text'', ''add_empty'', ''add_light'', ''add_camera'',
     ''transform_object'', ''duplicate_object'', ''delete_object'', ''rename_object'',
     ''parent_object'', ''join_objects'',
     ''enter_edit_mode'', ''exit_edit_mode'', ''select_all'', ''extrude_mesh'', ''subdivide_mesh'',
     ''bevel_mesh'', ''inset_faces'', ''loop_cut'', ''merge_vertices'',
     ''add_modifier'', ''remove_modifier'', ''apply_modifier'', ''list_modifiers'',
     ''create_material'', ''assign_material'', ''set_material_color'', ''set_smooth_shading'',
     ''set_keyframe'', ''set_frame'', ''get_frame_range'',
     ''set_render_settings'', ''render_image'', ''render_animation'',
     ''create_collection'', ''link_to_collection'',
     ''get_polyhaven_status'', ''get_hyper3d_status'']"

definition polyhaven_handlers :: "(string \<times> string) list" where
  "polyhaven_handlers = map self_method
    [''get_polyhaven_categories'', ''search_polyhaven_assets'', ''download_polyhaven_asset'',
     ''set_texture'']"

definition hyper3d_handlers :: "(string \<times> string) list" where
  "hyper3d_handlers = map self_method
    [''create_rodin_job'', ''poll_rodin_job_status'', ''import_generated_asset'']"

definition handlers :: "blender \<Rightarrow> (string \<times> string) list" where
  "handlers w =
     (let h0 = base_handlers;
          h1 = (if blendermcp_use_polyhaven w then dict_update h0 polyhaven_handlers else h0);
          h2 = (if blendermcp_use_hyper3d w then dict_update h1 hyper3d_handlers else h1)
      in h2)"

text \<open>\<^verbatim>\<open>handlers.get(cmd_type)\<close>: a list or a dict cannot be hashed; no other value than a
  \<^verbatim>\<open>str\<close> equals a key of the table.\<close>

fun handlers_get :: "(string \<times> string) list \<Rightarrow> json \<Rightarrow> exn + string option" where
  "handlers_get hs (JStr s) = Inr (map_of hs s)"
| "handlers_get hs (JList xs) = Inl (Unhashable (JList xs))"
| "handlers_get hs (JObj d) = Inl (Unhashable (JObj d))"
| "handlers_get hs v = Inr None"

definition success_response :: "json \<Rightarrow> json" where
  "success_response result = JObj [(''status'', JStr ''success''), (''result'', result)]"

definition error_response :: "string \<Rightarrow> json" where
  "error_response message = JObj [(''status'', JStr ''error''), (''message'', JStr message)]"

text \<open>
  \<^verbatim>\<open>try: <r> except Exception as e: return {"status": "error", "message": str(e)}\<close>:
  the frame around the handler call, and again around the whole of
  \<^verbatim>\<open>_execute_command_internal\<close>. \<open>Inl\<close> in the result is an exception that leaves the frame.
\<close>

definition except_Exception :: "interp \<Rightarrow> (exn + json) \<times> blender \<Rightarrow> (exn + json) \<times> blender" where
  "except_Exception py r =
     (case r of
        (Inl e, w) \<Rightarrow> if is_Exception e then (Inr (error_response (str_exn py e)), w) else (Inl e, w)
      | (Inr v, w) \<Rightarrow> (Inr v, w))"

definition handler_result :: "(exn + json) \<times> blender \<Rightarrow> (exn + json) \<times> blender" where
  "handler_result r =
     (case r of
        (Inl e, w) \<Rightarrow> (Inl e, w)
      | (Inr result, w) \<Rightarrow> (Inr (success_response result), w))"

definition execute_command_internal ::
  "interp \<Rightarrow> collab \<Rightarrow> blender \<Rightarrow> json \<Rightarrow> (exn + json) \<times> blender" where
  "execute_command_internal py co w command =
     (case command of
        JObj c \<Rightarrow>
          (let cmd_type = dict_get c ''type'' JNull;
               params = dict_get c ''params'' (JObj [])
           in case handlers_get (handlers w) cmd_type of
                Inl e \<Rightarrow> (Inl e, w)
              | Inr (Some handler) \<Rightarrow>
                  except_Exception py (handler_result (call_handler py co handler params w))
              | Inr None \<Rightarrow>
                  (Inr (error_response (''Unknown command type: '' @ py_str py cmd_type)), w))
      | _ \<Rightarrow> (Inl (AttributeError command ''get''), w))"

definition execute_command ::
  "interp \<Rightarrow> collab \<Rightarrow> blender \<Rightarrow> json \<Rightarrow> (exn + json) \<times> blender" where
  "execute_command py co w command =
     except_Exception py (execute_command_internal py co w command)"

text \<open>
  The commands handed to the host run one after the other, each on the state the one
  before left. An exception that leaves \<^verbatim>\<open>execute_command\<close> leaves the server's code; what
  the host does then is not the source's, and the run is followed no further.
\<close>

fun serve ::
  "interp \<Rightarrow> collab \<Rightarrow> blender \<Rightarrow> json list \<Rightarrow> json list \<times> exn option \<times> blender" where
  "serve py co w [] = ([], None, w)"
| "serve py co w (c # cs) =
     (case execute_command py co w c of
        (Inl e, w') \<Rightarrow> ([], Some e, w')
      | (Inr r, w') \<Rightarrow>
          (case serve py co w' cs of (rs, x, w'') \<Rightarrow> (r # rs, x, w'')))"

section \<open>Server lifecycle\<close>

text \<open>
  The fields of \<^verbatim>\<open>BlenderMCPServer\<close> that \<^verbatim>\<open>start\<close> and \<^verbatim>\<open>stop\<close> touch, with the part of the
  process they act on: \<open>listening\<close> holds the descriptors that are bound, listening and
  not yet closed; \<open>next_id\<close> numbers the sockets and threads the process creates.
\<close>

record server =
  running :: bool
  socket :: "nat option"
  server_thread :: "nat option"
  listening :: "nat list"
  next_id :: nat

definition new_server :: server where
  "new_server = \<lparr>running = False, socket = None, server_thread = None, listening = [], next_id = 0\<rparr>"

text \<open>
  \<^verbatim>\<open>stop\<close>: both \<^verbatim>\<open>try\<close> blocks swallow whatever \<^verbatim>\<open>close\<close> and \<^verbatim>\<open>join\<close> raise, so every path
  reaches the end.
\<close>

definition stop :: "server \<Rightarrow> server" where
  "stop p =
     p\<lparr>running := False,
       socket := None,
       server_thread := None,
       listening := (case socket p of None \<Rightarrow> listening p | Some fd \<Rightarrow> removeAll fd (listening p))\<rparr>"

text \<open>
  The \<^verbatim>\<open>try\<close> block of \<^verbatim>\<open>start\<close> in three steps; the operating system decides how far it
  gets before something raises.
\<close>

datatype start_outcome = Started | SocketFails | BindFails | ThreadFails

definition create_socket :: "server \<Rightarrow> server" where
  "create_socket p = p\<lparr>socket := Some (next_id p), next_id := Suc (next_id p)\<rparr>"

definition bind_listen :: "server \<Rightarrow> server" where
  "bind_listen p =
     (case socket p of None \<Rightarrow> p | Some fd \<Rightarrow> p\<lparr>listening := fd # listening p\<rparr>)"

definition start_thread :: "server \<Rightarrow> server" where
  "start_thread p = p\<lparr>server_thread := Some (next_id p), next_id := Suc (next_id p)\<rparr>"

definition start :: "start_outcome \<Rightarrow> server \<Rightarrow> server" where
  "start oc p =
     (if running p then p
      else
        (let p1 = p\<lparr>running := True\<rparr>
         in case oc of
              SocketFails \<Rightarrow> stop p1
            | BindFails \<Rightarrow> stop (create_socket p1)
            | ThreadFails \<Rightarrow> stop (start_thread (bind_listen (create_socket p1)))
            | Started \<Rightarrow> start_thread (bind_listen (create_socket p1))))"

datatype lifecycle_call = Start start_outcome | Stop

fun lifecycle :: "server \<Rightarrow> lifecycle_call list \<Rightarrow> server" where
  "lifecycle p [] = p"
| "lifecycle p (Start oc # cs) = lifecycle (start oc p) cs"
| "lifecycle p (Stop # cs) = lifecycle (stop p) cs"

section \<open>A stubbed host\<close>

text \<open>
  Concrete collaborators, for the instances the theorems are checked at: an interpreter
  with fixed wordings, a Scene Engine that knows \<^verbatim>\<open>add_modifier\<close> and \<^verbatim>\<open>delete_object\<close>,
  an Asset Provider that cannot be reached, and an \<^verbatim>\<open>exec\<close> that knows three programs.
\<close>

definition stub_interp :: interp where
  "stub_interp =
     \<lparr>exn_text = (\<lambda>e. ''TypeError''), format = (\<lambda>v. ''?''),
      float_truthy = (\<lambda>x. True), round2 = (\<lambda>x. x)\<rparr>"

definition stub_engine :: "string \<Rightarrow> dict \<Rightarrow> blender \<Rightarrow> (exn + json) \<times> blender" where
  "stub_engine f kw w =
     (if f = ''add_modifier''
      then (case (dict_get kw ''object_name'' JNull, dict_get kw ''modifier_type'' JNull) of
              (JStr n, JStr t) \<Rightarrow>
                if n \<in> obj_name ` set (objects w)
                then (Inr (JObj [(''object'', JStr n), (''modifier'', JStr t), (''type'', JStr t)]),
                      w\<lparr>objects := map (\<lambda>ob. if obj_name ob = n
                                                then ob\<lparr>modifiers := modifiers ob @ [t]\<rparr> else ob)
                                       (objects w)\<rparr>)
                else (Inl (Exc (''Object not found: '' @ n)), w)
            | _ \<Rightarrow> (Inl (Exc ''bad argument''), w))
      else if f = ''delete_object''
      then (case dict_get kw ''name'' JNull of
              JStr n \<Rightarrow>
                if n \<in> obj_name ` set (objects w)
                then (Inr (JObj [(''deleted'', JStr n)]),
                      w\<lparr>objects := filter (\<lambda>ob. obj_name ob \<noteq> n) (objects w)\<rparr>)
                else (Inl (Exc (''Object not found: '' @ n)), w)
            | _ \<Rightarrow> (Inl (Exc ''bad argument''), w))
      else (Inr JNull, w))"

definition stub_requests :: requests where
  "stub_requests url params = Inl (Exc ''Connection refused'')"

definition stub_exec :: "json \<Rightarrow> blender \<Rightarrow> (exn + string) \<times> blender" where
  "stub_exec code w =
     (if code = JStr ''raise SystemExit'' then (Inl (BaseExc ''SystemExit''), w)
      else if code = JStr ''1/0'' then (Inl (Exc ''division by zero''), w)
      else (Inr [], w))"

definition stub_host :: collab where
  "stub_host = \<lparr>scene_engine = stub_engine, requests_get = stub_requests, py_exec = stub_exec\<rparr>"

definition cube :: obj where
  "cube = \<lparr>obj_name = ''Cube'', obj_type = ''MESH'', location = (''0.0'', ''0.0'', ''0.0''),
           modifiers = []\<rparr>"

definition default_scene :: blender where
  "default_scene =
     \<lparr>scene_name = ''Scene'', frame_current = 1, frame_start = 1, frame_end = 250,
      objects = [cube], materials = [], collections = [],
      blendermcp_use_polyhaven = False, blendermcp_use_hyper3d = False\<rparr>"

section \<open>Decoding: \<^verbatim>\<open>buffer.decode('utf-8')\<close> and \<^verbatim>\<open>json.loads\<close>\<close>

text \<open>
  Both are the Python library's. Since a \<^verbatim>\<open>str\<close> is kept as its UTF-8 encoding,
  \<^verbatim>\<open>bytes.decode\<close> is the check that the bytes are well-formed UTF-8 (shortest form, no
  surrogates, at most U+10FFFF): it gives the same bytes, or \<^verbatim>\<open>UnicodeDecodeError\<close>.
\<close>

definition in_range :: "char \<Rightarrow> nat \<Rightarrow> nat \<Rightarrow> bool" where
  "in_range c lo hi = (lo \<le> of_char c \<and> (of_char c :: nat) \<le> hi)"

fun utf8_valid :: "string \<Rightarrow> bool" where
  "utf8_valid [] = True"
| "utf8_valid (a # s) =
     (if in_range a 0x00 0x7F then utf8_valid s
      else if in_range a 0xC2 0xDF
      then (case s of
              b # s' \<Rightarrow> in_range b 0x80 0xBF \<and> utf8_valid s'
            | _ \<Rightarrow> False)
      else if in_range a 0xE0 0xEF
      then (case s of
              b # c # s' \<Rightarrow>
                in_range b (if a = CHR 0xE0 then 0xA0 else 0x80) (if a = CHR 0xED then 0x9F else 0xBF)
                \<and> in_range c 0x80 0xBF \<and> utf8_valid s'
            | _ \<Rightarrow> False)
      else if in_range a 0xF0 0xF4
      then (case s of
              b # c # d # s' \<Rightarrow>
                in_range b (if a = CHR 0xF0 then 0x90 else 0x80) (if a = CHR 0xF4 then 0x8F else 0xBF)
                \<and> in_range c 0x80 0xBF \<and> in_range d 0x80 0xBF \<and> utf8_valid s'
            | _ \<Rightarrow> False)
      else False)"

definition decode_utf8 :: "string \<Rightarrow> string option" where
  "decode_utf8 b = (if utf8_valid b then Some b else None)"

text \<open>The encoding of one code point; a lone surrogate, which only an escape can produce,
  gets the three bytes of its number.\<close>

definition utf8_encode :: "nat \<Rightarrow> string" where
  "utf8_encode n =
     (if n < 0x80 then [char_of n]
      else if n < 0x800 then [char_of (0xC0 + n div 0x40), char_of (0x80 + n mod 0x40)]
      else if n < 0x10000
      then [char_of (0xE0 + n div 0x1000), char_of (0x80 + n div 0x40 mod 0x40),
            char_of (0x80 + n mod 0x40)]
      else [char_of (0xF0 + n div 0x40000), char_of (0x80 + n div 0x1000 mod 0x40),
            char_of (0x80 + n div 0x40 mod 0x40), char_of (0x80 + n mod 0x40)])"

text \<open>
  \<^verbatim>\<open>json.loads\<close> on a \<^verbatim>\<open>str\<close>, as the grammar of the library's scanner: one value between
  optional whitespace (space, tab, line feed, carriage return), strings in strict mode
  (no control character), the escape \<^verbatim>\<open>\uXXXX\<close> with surrogate pairs joined, the
  constants \<^verbatim>\<open>NaN\<close>, \<^verbatim>\<open>Infinity\<close> and \<^verbatim>\<open>-Infinity\<close>, and the last value of a repeated key
  kept in the place of the first. The text is read one character at a time by a pushdown
  automaton; \<open>None\<close> is \<^verbatim>\<open>JSONDecodeError\<close>. The interpreter's bounds (recursion depth,
  digits of an integer) are not modelled.
\<close>

definition whitespace :: "char \<Rightarrow> bool" where
  "whitespace c = (c = CHR '' '' \<or> c = CHR 0x09 \<or> c = CHR 0x0A \<or> c = CHR 0x0D)"

definition hex_digit :: "char \<Rightarrow> nat option" where
  "hex_digit c =
     (if in_range c 0x30 0x39 then Some (of_char c - 0x30)
      else if in_range c 0x61 0x66 then Some (of_char c - 0x57)
      else if in_range c 0x41 0x46 then Some (of_char c - 0x37)
      else None)"

definition unescape :: "char \<Rightarrow> char option" where
  "unescape c =
     (if c = CHR 0x22 \<or> c = CHR 0x5C \<or> c = CHR ''/'' then Some c
      else if c = CHR ''b'' then Some (CHR 0x08)
      else if c = CHR ''f'' then Some (CHR 0x0C)
      else if c = CHR ''n'' then Some (CHR 0x0A)
      else if c = CHR ''r'' then Some (CHR 0x0D)
      else if c = CHR ''t'' then Some (CHR 0x09)
      else None)"

text \<open>The containers that are open: an array with its elements so far, an object waiting
  for a key, an object with a key waiting for its value.\<close>

datatype frame = FArr "json list" | FObj dict | FKey dict string

datatype num_phase = NMinus | NZero | NInt | NDot | NFrac | NExp | NExpSign | NExpDigits

datatype str_phase = SChars | SEscape | SUni nat nat

text \<open>
  Where the scanner is: before a value, after \<^verbatim>\<open>[\<close>, after \<^verbatim>\<open>{\<close>, after a comma in an
  object, after a key, after a value in a container, after the whole value; or inside
  a string (the bytes so far, a high surrogate that may still get its partner, the phase),
  a number (the text so far, the phase) or a constant (the rest of its name, its value).
\<close>

datatype ctl =
    CValue
  | CArrStart
  | CObjStart
  | CObjKey
  | CColon
  | CAfter
  | CDone json
  | CStr string "nat option" str_phase
  | CNum string num_phase
  | CLit string json

datatype pstate = Fail | St ctl "frame list"

text \<open>A finished value goes to the innermost open container; a string finished where an
  object waits for a key is that key.\<close>

fun complete :: "json \<Rightarrow> frame list \<Rightarrow> pstate" where
  "complete v [] = St (CDone v) []"
| "complete v (FArr xs # fs) = St CAfter (FArr (xs @ [v]) # fs)"
| "complete v (FKey d k # fs) = St CAfter (FObj (dict_set d k v) # fs)"
| "complete (JStr k) (FObj d # fs) = St CColon (FKey d k # fs)"
| "complete v (FObj d # fs) = Fail"

definition begin_value :: "char \<Rightarrow> frame list \<Rightarrow> pstate" where
  "begin_value c fs =
     (if c = CHR 0x22 then St (CStr [] None SChars) fs
      else if c = CHR ''{'' then St CObjStart (FObj [] # fs)
      else if c = CHR ''['' then St CArrStart (FArr [] # fs)
      else if c = CHR ''n'' then St (CLit ''ull'' JNull) fs
      else if c = CHR ''t'' then St (CLit ''rue'' (JBool True)) fs
      else if c = CHR ''f'' then St (CLit ''alse'' (JBool False)) fs
      else if c = CHR ''N'' then St (CLit ''aN'' (JFloat ''NaN'')) fs
      else if c = CHR ''I'' then St (CLit ''nfinity'' (JFloat ''Infinity'')) fs
      else if c = CHR ''-'' then St (CNum [c] NMinus) fs
      else if c = CHR ''0'' then St (CNum [c] NZero) fs
      else if in_range c 0x31 0x39 then St (CNum [c] NInt) fs
      else Fail)"

text \<open>After a value: whitespace, a comma, or the bracket that closes the container.\<close>

definition after_value :: "ctl \<Rightarrow> frame list \<Rightarrow> char \<Rightarrow> pstate" where
  "after_value q fs c =
     (if whitespace c then St q fs
      else (case fs of
              FArr xs # fs' \<Rightarrow>
                if c = CHR '','' then St CValue fs
                else if c = CHR '']'' then complete (JList xs) fs'
                else Fail
            | FObj d # fs' \<Rightarrow>
                if c = CHR '','' then St CObjKey fs
                else if c = CHR ''}'' then complete (JObj d) fs'
                else Fail
            | _ \<Rightarrow> Fail))"

text \<open>The value of a number: an \<^verbatim>\<open>int\<close> without fraction and exponent, else a \<^verbatim>\<open>float\<close>.\<close>

definition digits_value :: "string \<Rightarrow> nat" where
  "digits_value ds = foldl (\<lambda>n c. 10 * n + (of_char c - 0x30)) 0 ds"

definition number_value :: "string \<Rightarrow> num_phase \<Rightarrow> json" where
  "number_value lexeme ph =
     (if ph = NZero \<or> ph = NInt
      then (case lexeme of
              c # ds \<Rightarrow> if c = CHR ''-'' then JInt (- int (digits_value ds))
                        else JInt (int (digits_value lexeme))
            | [] \<Rightarrow> JInt 0)
      else JFloat lexeme)"

definition number_ends :: "num_phase \<Rightarrow> bool" where
  "number_ends ph = (ph = NZero \<or> ph = NInt \<or> ph = NFrac \<or> ph = NExpDigits)"

definition after_number :: "string \<Rightarrow> num_phase \<Rightarrow> frame list \<Rightarrow> char \<Rightarrow> pstate" where
  "after_number lexeme ph fs c =
     (case complete (number_value lexeme ph) fs of
        Fail \<Rightarrow> Fail
      | St q fs' \<Rightarrow> after_value q fs' c)"

definition number_step :: "string \<Rightarrow> num_phase \<Rightarrow> frame list \<Rightarrow> char \<Rightarrow> pstate" where
  "number_step lexeme ph fs c =
     (let digit = in_range c 0x30 0x39;
          e = (c = CHR ''e'' \<or> c = CHR ''E'');
          go = (\<lambda>ph'. St (CNum (lexeme @ [c]) ph') fs)
      in case ph of
           NMinus \<Rightarrow>
             if c = CHR ''0'' then go NZero
             else if digit then go NInt
             else if c = CHR ''I'' then St (CLit ''nfinity'' (JFloat ''-Infinity'')) fs
             else Fail
         | NZero \<Rightarrow>
             if c = CHR ''.'' then go NDot else if e then go NExp
             else after_number lexeme ph fs c
         | NInt \<Rightarrow>
             if digit then go NInt else if c = CHR ''.'' then go NDot else if e then go NExp
             else after_number lexeme ph fs c
         | NDot \<Rightarrow> if digit then go NFrac else Fail
         | NFrac \<Rightarrow>
             if digit then go NFrac else if e then go NExp
             else after_number lexeme ph fs c
         | NExp \<Rightarrow>
             if c = CHR ''+'' \<or> c = CHR ''-'' then go NExpSign
             else if digit then go NExpDigits
             else Fail
         | NExpSign \<Rightarrow> if digit then go NExpDigits else Fail
         | NExpDigits \<Rightarrow> if digit then go NExpDigits else after_number lexeme ph fs c)"

text \<open>
  Inside a string. A high surrogate from an escape waits for the next escape: a low
  surrogate joins it, anything else leaves it alone in the string.
\<close>

definition flush :: "string \<Rightarrow> nat option \<Rightarrow> string" where
  "flush acc pending = (case pending of None \<Rightarrow> acc | Some hi \<Rightarrow> acc @ utf8_encode hi)"

definition code_unit :: "string \<Rightarrow> nat option \<Rightarrow> nat \<Rightarrow> ctl" where
  "code_unit acc pending u =
     (case pending of
        Some hi \<Rightarrow>
          if 0xDC00 \<le> u \<and> u \<le> 0xDFFF
          then CStr (acc @ utf8_encode (0x10000 + (hi - 0xD800) * 0x400 + (u - 0xDC00))) None SChars
          else if 0xD800 \<le> u \<and> u \<le> 0xDBFF then CStr (acc @ utf8_encode hi) (Some u) SChars
          else CStr (acc @ utf8_encode hi @ utf8_encode u) None SChars
      | None \<Rightarrow>
          if 0xD800 \<le> u \<and> u \<le> 0xDBFF then CStr acc (Some u) SChars
          else CStr (acc @ utf8_encode u) None SChars)"

definition string_step ::
  "string \<Rightarrow> nat option \<Rightarrow> str_phase \<Rightarrow> frame list \<Rightarrow> char \<Rightarrow> pstate" where
  "string_step acc pending ph fs c =
     (case ph of
        SChars \<Rightarrow>
          if c = CHR 0x22 then complete (JStr (flush acc pending)) fs
          else if c = CHR 0x5C then St (CStr acc pending SEscape) fs
          else if in_range c 0x00 0x1F then Fail
          else St (CStr (flush acc pending @ [c]) None SChars) fs
      | SEscape \<Rightarrow>
          if c = CHR ''u'' then St (CStr acc pending (SUni 0 0)) fs
          else (case unescape c of
                  Some c' \<Rightarrow> St (CStr (flush acc pending @ [c']) None SChars) fs
                | None \<Rightarrow> Fail)
      | SUni n u \<Rightarrow>
          (case hex_digit c of
             None \<Rightarrow> Fail
           | Some h \<Rightarrow>
               if n = 3 then St (code_unit acc pending (16 * u + h)) fs
               else St (CStr acc pending (SUni (Suc n) (16 * u + h))) fs))"

definition literal_step :: "string \<Rightarrow> json \<Rightarrow> frame list \<Rightarrow> char \<Rightarrow> pstate" where
  "literal_step rest v fs c =
     (case rest of
        [] \<Rightarrow> Fail
      | r # rs \<Rightarrow>
          if c \<noteq> r then Fail
          else if rs = [] then complete v fs
          else St (CLit rs v) fs)"

definition control_step :: "ctl \<Rightarrow> frame list \<Rightarrow> char \<Rightarrow> pstate" where
  "control_step q fs c =
     (case q of
        CValue \<Rightarrow> if whitespace c then St q fs else begin_value c fs
      | CArrStart \<Rightarrow>
          if whitespace c then St q fs
          else if c = CHR '']'' then (case fs of f # fs' \<Rightarrow> complete (JList []) fs' | [] \<Rightarrow> Fail)
          else begin_value c fs
      | CObjStart \<Rightarrow>
          if whitespace c then St q fs
          else if c = CHR ''}'' then (case fs of f # fs' \<Rightarrow> complete (JObj []) fs' | [] \<Rightarrow> Fail)
          else if c = CHR 0x22 then St (CStr [] None SChars) fs
          else Fail
      | CObjKey \<Rightarrow>
          if whitespace c then St q fs
          else if c = CHR 0x22 then St (CStr [] None SChars) fs
          else Fail
      | CColon \<Rightarrow>
          if whitespace c then St q fs
          else if c = CHR '':'' then St CValue fs
          else Fail
      | CAfter \<Rightarrow> after_value q fs c
      | CDone v \<Rightarrow> after_value q fs c
      | CStr acc pending ph \<Rightarrow> string_step acc pending ph fs c
      | CNum lexeme ph \<Rightarrow> number_step lexeme ph fs c
      | CLit rest v \<Rightarrow> literal_step rest v fs c)"

fun feed :: "pstate \<Rightarrow> char \<Rightarrow> pstate" where
  "feed Fail c = Fail"
| "feed (St q fs) c = control_step q fs c"

text \<open>At the end of the text: the value, if it is whole and nothing is open.\<close>

fun finish :: "pstate \<Rightarrow> json option" where
  "finish (St (CDone v) []) = Some v"
| "finish (St (CNum lexeme ph) []) = (if number_ends ph then Some (number_value lexeme ph) else None)"
| "finish st = None"

definition json_loads :: "string \<Rightarrow> json option" where
  "json_loads s = finish (foldl feed (St CValue []) s)"

section \<open>The connection handler\<close>

text \<open>
  What one \<^verbatim>\<open>client.recv(8192)\<close> gives: bytes (none when the peer has closed) or an
  exception; \<open>NotRunning\<close> stands for the loop test finding \<^verbatim>\<open>self.running\<close> false.
\<close>

datatype recv = Data string | RecvError | NotRunning

text \<open>
  The connection: the accumulation buffer, the commands handed to
  \<^verbatim>\<open>bpy.app.timers.register\<close> so far (each gets one response when the host runs it, and
  nothing else writes to the client), and whether the handler has left its loop and
  closed the socket.
\<close>

record conn =
  buffer :: string
  submitted :: "json list"
  closed :: bool

definition new_conn :: conn where
  "new_conn = \<lparr>buffer = [], submitted = [], closed = False\<rparr>"

datatype 'a loop = Continue 'a | Break 'a

text \<open>
  One turn of the loop. \<^verbatim>\<open>except json.JSONDecodeError: pass\<close> keeps the buffer and goes on;
  any other exception of the turn, \<^verbatim>\<open>UnicodeDecodeError\<close> of \<^verbatim>\<open>buffer.decode\<close> among them,
  reaches \<^verbatim>\<open>except Exception\<close>, which leaves the loop.
\<close>

definition recv_step :: "conn \<Rightarrow> recv \<Rightarrow> conn loop" where
  "recv_step cn r =
     (case r of
        NotRunning \<Rightarrow> Break cn
      | RecvError \<Rightarrow> Break cn
      | Data data \<Rightarrow>
          if data = [] then Break cn
          else
            (let cn1 = cn\<lparr>buffer := buffer cn @ data\<rparr>
             in case decode_utf8 (buffer cn1) of
                  None \<Rightarrow> Break cn1
                | Some text \<Rightarrow>
                    (case json_loads text of
                       None \<Rightarrow> Continue cn1
                     | Some command \<Rightarrow>
                         Continue (cn1\<lparr>buffer := [], submitted := submitted cn1 @ [command]\<rparr>))))"

fun handle_client :: "conn \<Rightarrow> recv list \<Rightarrow> conn" where
  "handle_client cn [] = cn"
| "handle_client cn (r # rs) =
     (case recv_step cn r of
        Continue cn' \<Rightarrow> handle_client cn' rs
      | Break cn' \<Rightarrow> cn'\<lparr>closed := True\<rparr>)"

section \<open>The response envelope\<close>

text \<open>\<^verbatim>\<open>r.get(k)\<close> on a value that may or may not be a \<^verbatim>\<open>dict\<close>.\<close>

definition json_get :: "json \<Rightarrow> string \<Rightarrow> json option" where
  "json_get r k = (case r of JObj d \<Rightarrow> map_of d k | _ \<Rightarrow> None)"

text \<open>
  The two shapes of a Response: status \<^verbatim>\<open>"success"\<close> with a result, or status \<^verbatim>\<open>"error"\<close>
  with a message that is a string and no result.
\<close>

definition envelope :: "json \<Rightarrow> bool" where
  "envelope r =
     (case json_get r ''status'' of
        Some (JStr s) \<Rightarrow>
          (s = ''success'' \<and> json_get r ''result'' \<noteq> None)
          \<or> (s = ''error''
              \<and> (case json_get r ''message'' of Some (JStr m) \<Rightarrow> True | _ \<Rightarrow> False)
              \<and> json_get r ''result'' = None)
      | _ \<Rightarrow> False)"

section \<open>The handler table\<close>

lemma dict_set_fresh: "k \<notin> fst ` set d \<Longrightarrow> dict_set d k v = d @ [(k, v)]"
  by (induction d) auto

lemma dict_update_fresh:
  "distinct (map fst e) \<Longrightarrow> fst ` set e \<inter> fst ` set d = {} \<Longrightarrow> dict_update d e = d @ e"
proof (induction e arbitrary: d)
  case Nil
  then show ?case by (simp add: dict_update_def)
next
  case (Cons a e)
  obtain k v where a: "a = (k, v)" by (cases a)
  have k: "k \<notin> fst ` set d" using Cons.prems(2) a by auto
  have "dict_update d (a # e) = dict_update (dict_set d k v) e"
    by (simp add: dict_update_def a)
  also have "\<dots> = dict_update (d @ [(k, v)]) e"
    by (simp add: dict_set_fresh [OF k])
  also have "\<dots> = (d @ [(k, v)]) @ e"
  proof (rule Cons.IH)
    show "distinct (map fst e)" using Cons.prems(1) by simp
    show "fst ` set e \<inter> fst ` set (d @ [(k, v)]) = {}"
      using Cons.prems a by auto
  qed
  finally show ?case by (simp add: a)
qed


lemma map_fst_method: "map fst (map self_method ns) = ns"
  by (induction ns) (simp_all add: self_method_def)

lemma fst_set_method: "fst ` set (map self_method ns) = set ns"
  using map_fst_method [of ns] by (metis list.set_map)

lemma map_of_method: "map_of (map self_method ns) n = (if n \<in> set ns then Some n else None)"
  by (induction ns) (simp_all add: self_method_def)

lemma polyhaven_fresh:
  "distinct (map fst polyhaven_handlers)"
  "fst ` set polyhaven_handlers \<inter> fst ` set base_handlers = {}"
  unfolding polyhaven_handlers_def base_handlers_def map_fst_method fst_set_method
  by simp_all

lemma hyper3d_fresh:
  "distinct (map fst hyper3d_handlers)"
  "fst ` set hyper3d_handlers \<inter> fst ` set base_handlers = {}"
  "fst ` set hyper3d_handlers \<inter> fst ` set polyhaven_handlers = {}"
  unfolding polyhaven_handlers_def base_handlers_def hyper3d_handlers_def map_fst_method fst_set_method
  by simp_all

lemma handlers_eq:
  "handlers w = base_handlers
     @ (if blendermcp_use_polyhaven w then polyhaven_handlers else [])
     @ (if blendermcp_use_hyper3d w then hyper3d_handlers else [])"
proof -
  have a: "dict_update base_handlers polyhaven_handlers = base_handlers @ polyhaven_handlers"
    by (rule dict_update_fresh [OF polyhaven_fresh])
  have b: "dict_update base_handlers hyper3d_handlers = base_handlers @ hyper3d_handlers"
    by (rule dict_update_fresh [OF hyper3d_fresh(1,2)])
  have c: "dict_update (base_handlers @ polyhaven_handlers) hyper3d_handlers
           = (base_handlers @ polyhaven_handlers) @ hyper3d_handlers"
    by (rule dict_update_fresh [OF hyper3d_fresh(1)])
       (use hyper3d_fresh(2,3) in \<open>auto simp: image_Un\<close>)
  show ?thesis
    by (simp add: handlers_def a b c)
qed


lemma handlers_methods: "\<exists>ns. handlers w = map self_method ns"
proof -
  obtain a where a: "base_handlers = map self_method a"
    by (rule that [OF base_handlers_def])
  obtain b where b: "polyhaven_handlers = map self_method b"
    by (rule that [OF polyhaven_handlers_def])
  obtain c where c: "hyper3d_handlers = map self_method c"
    by (rule that [OF hyper3d_handlers_def])
  have "handlers w = map self_method (a @ (if blendermcp_use_polyhaven w then b else [])
                                   @ (if blendermcp_use_hyper3d w then c else []))"
    by (simp add: handlers_eq a b c)
  then show ?thesis ..
qed

lemma map_of_handlers:
  "map_of (handlers w) n = (if n \<in> fst ` set (handlers w) then Some n else None)"
proof -
  obtain ns where ns: "handlers w = map self_method ns"
    using handlers_methods by blast
  show ?thesis
    unfolding ns fst_set_method by (rule map_of_method)
qed

section \<open>Unknown commands\<close>

text \<open>
  Claim C2. A command whose type is a name outside the table of this dispatch call, be it
  registered nowhere or only in a capability set whose flag is off, gets the error response
  that names the type; nothing is raised and the host state is untouched.
\<close>

theorem unknown_command_error:
  assumes "dict_get c ''type'' JNull = JStr name"
    and "name \<notin> fst ` set (handlers w)"
  shows "execute_command py co w (JObj c)
         = (Inr (JObj [(''status'', JStr ''error''),
                      (''message'', JStr (''Unknown command type: '' @ name))]), w)"
  using assms
  by (simp add: execute_command_def execute_command_internal_def map_of_handlers
      except_Exception_def error_response_def)

lemma default_handlers: "handlers default_scene = base_handlers"
  by (simp add: handlers_eq default_scene_def)

lemma not_base:
  "''unknown_cmd'' \<notin> fst ` set base_handlers"
  "''search_polyhaven_assets'' \<notin> fst ` set base_handlers"
  unfolding base_handlers_def fst_set_method by simp_all

theorem unknown_command_error_witness:
  "execute_command stub_interp stub_host default_scene
     (JObj [(''type'', JStr ''unknown_cmd''), (''params'', JObj [])])
   = (Inr (JObj [(''status'', JStr ''error''),
                (''message'', JStr ''Unknown command type: unknown_cmd'')]), default_scene)
   \<and> execute_command stub_interp stub_host default_scene
     (JObj [(''type'', JStr ''search_polyhaven_assets''), (''params'', JObj [])])
   = (Inr (JObj [(''status'', JStr ''error''),
                (''message'', JStr ''Unknown command type: search_polyhaven_assets'')]), default_scene)"
  using unknown_command_error [of "[(''type'', JStr ''unknown_cmd''), (''params'', JObj [])]"
          "''unknown_cmd''" default_scene stub_interp stub_host]
        unknown_command_error [of "[(''type'', JStr ''search_polyhaven_assets''), (''params'', JObj [])]"
          "''search_polyhaven_assets''" default_scene stub_interp stub_host]
  by (simp add: dict_get_def default_handlers not_base)

lemma execute_command_internal_known:
  assumes "dict_get c ''type'' JNull = JStr name"
    and "name \<in> fst ` set (handlers w)"
  shows "execute_command_internal py co w (JObj c)
         = except_Exception py
             (handler_result (call_handler py co name (dict_get c ''params'' (JObj [])) w))"
  using assms
  by (simp add: execute_command_internal_def map_of_handlers)

lemma execute_command_internal_unknown:
  assumes "dict_get c ''type'' JNull = JStr name"
    and "name \<notin> fst ` set (handlers w)"
  shows "execute_command_internal py co w (JObj c)
         = (Inr (error_response (''Unknown command type: '' @ name)), w)"
  using assms
  by (simp add: execute_command_internal_def map_of_handlers)

lemma fst_set_handlers:
  "fst ` set (handlers w) = fst ` set base_handlers
     \<union> (if blendermcp_use_polyhaven w then fst ` set polyhaven_handlers else {})
     \<union> (if blendermcp_use_hyper3d w then fst ` set hyper3d_handlers else {})"
  by (simp add: handlers_eq image_Un Un_assoc)

lemma polyhaven_enabled_iff:
  "name \<in> fst ` set polyhaven_handlers \<Longrightarrow>
     name \<in> fst ` set (handlers w) \<longleftrightarrow> blendermcp_use_polyhaven w"
  using polyhaven_fresh(2) hyper3d_fresh(3) by (auto simp: fst_set_handlers)

lemma hyper3d_enabled_iff:
  "name \<in> fst ` set hyper3d_handlers \<Longrightarrow>
     name \<in> fst ` set (handlers w) \<longleftrightarrow> blendermcp_use_hyper3d w"
  using hyper3d_fresh(2) hyper3d_fresh(3) by (auto simp: fst_set_handlers)

section \<open>Capability flags\<close>

text \<open>
  Claim C3. The table is rebuilt from the flags of the host state at every dispatch call:
  for a command name of the Polyhaven set (of the Hyper3D set), the call runs the handler of
  that name when the flag is on in the state it is given, and answers with the
  unknown-command error when it is off. The state is the only input, so two consecutive
  calls that see different flag values differ in exactly this way.
\<close>

theorem capability_flag_live:
  assumes "dict_get c ''type'' JNull = JStr name"
  shows "(name \<in> fst ` set polyhaven_handlers \<longrightarrow>
            execute_command_internal py co w (JObj c)
            = (if blendermcp_use_polyhaven w
               then except_Exception py
                      (handler_result (call_handler py co name (dict_get c ''params'' (JObj [])) w))
               else (Inr (JObj [(''status'', JStr ''error''),
                                (''message'', JStr (''Unknown command type: '' @ name))]), w)))
       \<and> (name \<in> fst ` set hyper3d_handlers \<longrightarrow>
            execute_command_internal py co w (JObj c)
            = (if blendermcp_use_hyper3d w
               then except_Exception py
                      (handler_result (call_handler py co name (dict_get c ''params'' (JObj [])) w))
               else (Inr (JObj [(''status'', JStr ''error''),
                                (''message'', JStr (''Unknown command type: '' @ name))]), w)))"
proof (intro conjI impI)
  assume n: "name \<in> fst ` set polyhaven_handlers"
  show "execute_command_internal py co w (JObj c)
        = (if blendermcp_use_polyhaven w
           then except_Exception py
                  (handler_result (call_handler py co name (dict_get c ''params'' (JObj [])) w))
           else (Inr (JObj [(''status'', JStr ''error''),
                            (''message'', JStr (''Unknown command type: '' @ name))]), w))"
    using execute_command_internal_known [OF assms, of w py co]
      execute_command_internal_unknown [OF assms, of w py co]
      polyhaven_enabled_iff [OF n, of w]
    by (simp add: error_response_def)
next
  assume n: "name \<in> fst ` set hyper3d_handlers"
  show "execute_command_internal py co w (JObj c)
        = (if blendermcp_use_hyper3d w
           then except_Exception py
                  (handler_result (call_handler py co name (dict_get c ''params'' (JObj [])) w))
           else (Inr (JObj [(''status'', JStr ''error''),
                            (''message'', JStr (''Unknown command type: '' @ name))]), w))"
    using execute_command_internal_known [OF assms, of w py co]
      execute_command_internal_unknown [OF assms, of w py co]
      hyper3d_enabled_iff [OF n, of w]
    by (simp add: error_response_def)
qed


lemma signature_of_simps:
  "signature_of ''search_polyhaven_assets'' = Sig [] [''asset_type'', ''categories''] False"
  "signature_of ''get_polyhaven_categories'' = Sig [''asset_type''] [] False"
  "signature_of ''create_rodin_job'' = Sig [] [] True"
  "signature_of ''execute_code'' = Sig [''code''] [] False"
  "signature_of ''get_scene_info'' = Sig [] [] False"
  "signature_of ''add_modifier'' = Sig [''object_name'', ''modifier_type''] [] True"
  "signature_of ''delete_object'' = Sig [''name''] [] False"
  by (simp_all add: signature_of_def signatures_def dict_get_def)

theorem capability_flag_live_witness:
  "execute_command_internal stub_interp stub_host default_scene
     (JObj [(''type'', JStr ''search_polyhaven_assets'')])
   = (Inr (JObj [(''status'', JStr ''error''),
                (''message'', JStr ''Unknown command type: search_polyhaven_assets'')]),
      default_scene)
   \<and> execute_command_internal stub_interp stub_host
       (default_scene\<lparr>blendermcp_use_polyhaven := True\<rparr>)
       (JObj [(''type'', JStr ''search_polyhaven_assets'')])
   = (Inr (JObj [(''status'', JStr ''success''),
                (''result'', JObj [(''error'', JStr ''Connection refused'')])]),
      default_scene\<lparr>blendermcp_use_polyhaven := True\<rparr>)
   \<and> execute_command_internal stub_interp stub_host default_scene
       (JObj [(''type'', JStr ''create_rodin_job'')])
   = (Inr (JObj [(''status'', JStr ''error''),
                (''message'', JStr ''Unknown command type: create_rodin_job'')]),
      default_scene)
   \<and> execute_command_internal stub_interp stub_host
       (default_scene\<lparr>blendermcp_use_hyper3d := True\<rparr>)
       (JObj [(''type'', JStr ''create_rodin_job'')])
   = (Inr (JObj [(''status'', JStr ''success''), (''result'', JNull)]),
      default_scene\<lparr>blendermcp_use_hyper3d := True\<rparr>)"
proof -
  have p: "''search_polyhaven_assets'' \<in> fst ` set polyhaven_handlers"
    unfolding polyhaven_handlers_def fst_set_method by simp
  have h: "''create_rodin_job'' \<in> fst ` set hyper3d_handlers"
    unfolding hyper3d_handlers_def fst_set_method by simp
  have t: "dict_get [(''type'', JStr n)] ''type'' JNull = JStr n" for n
    by (simp add: dict_get_def)
  have call_p: "call_handler stub_interp stub_host ''search_polyhaven_assets''
                  (dict_get [(''type'', JStr ''search_polyhaven_assets'')] ''params'' (JObj [])) w
                = (Inr (JObj [(''error'', JStr ''Connection refused'')]), w)" for w
    by (simp add: call_handler_def dict_get_def signature_of_simps bind_error_def
        handler_body_def search_polyhaven_assets_def stub_host_def stub_requests_def
        error_dict_def)
  have call_h: "call_handler stub_interp stub_host ''create_rodin_job''
                  (dict_get [(''type'', JStr ''create_rodin_job'')] ''params'' (JObj [])) w
                = (Inr JNull, w)" for w
    by (simp add: call_handler_def dict_get_def signature_of_simps bind_error_def
        handler_body_def stub_host_def stub_engine_def)
  show ?thesis
    using capability_flag_live [OF t, of "''search_polyhaven_assets''" stub_interp stub_host default_scene]
      capability_flag_live [OF t, of "''search_polyhaven_assets''" stub_interp stub_host
        "default_scene\<lparr>blendermcp_use_polyhaven := True\<rparr>"]
      capability_flag_live [OF t, of "''create_rodin_job''" stub_interp stub_host default_scene]
      capability_flag_live [OF t, of "''create_rodin_job''" stub_interp stub_host
        "default_scene\<lparr>blendermcp_use_hyper3d := True\<rparr>"]
    by (simp add: p h call_p call_h default_scene_def except_Exception_def handler_result_def
        success_response_def)
qed


section \<open>Exceptions of handlers\<close>

text \<open>
  Claim C1, amended. When the handler of an enabled command raises an instance of
  \<^verbatim>\<open>Exception\<close>, be it while binding the arguments or in its body, both
  \<^verbatim>\<open>_execute_command_internal\<close> and \<^verbatim>\<open>execute_command\<close> return the error response that
  carries \<^verbatim>\<open>str(e)\<close>, on the state the handler left, and the commands that follow are
  processed from that state.
\<close>

theorem handler_exception_caught:
  assumes "dict_get c ''type'' JNull = JStr name"
    and "name \<in> fst ` set (handlers w)"
    and "call_handler py co name (dict_get c ''params'' (JObj [])) w = (Inl e, w')"
    and "is_Exception e"
  shows "execute_command_internal py co w (JObj c)
           = (Inr (JObj [(''status'', JStr ''error''), (''message'', JStr (str_exn py e))]), w')
         \<and> execute_command py co w (JObj c)
           = (Inr (JObj [(''status'', JStr ''error''), (''message'', JStr (str_exn py e))]), w')
         \<and> serve py co w (JObj c # cs)
           = (case serve py co w' cs of
                (rs, x, w'') \<Rightarrow>
                  (JObj [(''status'', JStr ''error''), (''message'', JStr (str_exn py e))] # rs,
                   x, w''))"
proof -
  have i: "execute_command_internal py co w (JObj c)
           = (Inr (JObj [(''status'', JStr ''error''), (''message'', JStr (str_exn py e))]), w')"
    using assms(3,4)
    by (simp add: execute_command_internal_known [OF assms(1,2)] handler_result_def
        except_Exception_def error_response_def)
  have x: "execute_command py co w (JObj c)
           = (Inr (JObj [(''status'', JStr ''error''), (''message'', JStr (str_exn py e))]), w')"
    by (simp add: execute_command_def i except_Exception_def)
  show ?thesis
    by (simp add: i x)
qed

text \<open>
  Claim C1 as stated fails: \<^verbatim>\<open>SystemExit\<close> is an exception and not an \<^verbatim>\<open>Exception\<close>.
  Raised by the code that \<^verbatim>\<open>execute_code\<close> runs, it passes all three
  \<^verbatim>\<open>except Exception\<close> frames and leaves \<^verbatim>\<open>execute_command\<close>.
\<close>

theorem base_exception_propagates:
  "execute_command stub_interp stub_host default_scene
     (JObj [(''type'', JStr ''execute_code''),
            (''params'', JObj [(''code'', JStr ''raise SystemExit'')])])
   = (Inl (BaseExc ''SystemExit''), default_scene)"
proof -
  have t: "dict_get [(''type'', JStr ''execute_code''),
                     (''params'', JObj [(''code'', JStr ''raise SystemExit'')])] ''type'' JNull
           = JStr ''execute_code''"
    by (simp add: dict_get_def)
  have b: "''execute_code'' \<in> fst ` set (handlers default_scene)"
    unfolding default_handlers base_handlers_def fst_set_method by simp
  show ?thesis
    by (simp add: execute_command_def execute_command_internal_known [OF t b] dict_get_def
        call_handler_def signature_of_simps bind_error_def handler_body_def execute_code_def
        stub_host_def stub_exec_def handler_result_def except_Exception_def)
qed

theorem handler_exception_caught_witness:
  "execute_command stub_interp stub_host default_scene
     (JObj [(''type'', JStr ''execute_code''), (''params'', JObj [(''code'', JStr ''1/0'')])])
   = (Inr (JObj [(''status'', JStr ''error''),
                (''message'', JStr ''Code execution error: division by zero'')]), default_scene)
   \<and> serve stub_interp stub_host default_scene
       [JObj [(''type'', JStr ''execute_code''), (''params'', JObj [(''code'', JStr ''1/0'')])],
        JObj [(''type'', JStr ''nope'')]]
   = ([JObj [(''status'', JStr ''error''),
             (''message'', JStr ''Code execution error: division by zero'')],
       JObj [(''status'', JStr ''error''), (''message'', JStr ''Unknown command type: nope'')]],
      None, default_scene)"
proof -
  let ?c = "[(''type'', JStr ''execute_code''), (''params'', JObj [(''code'', JStr ''1/0'')])]"
  have t: "dict_get ?c ''type'' JNull = JStr ''execute_code''"
    by (simp add: dict_get_def)
  have b: "''execute_code'' \<in> fst ` set (handlers default_scene)"
    unfolding default_handlers base_handlers_def fst_set_method by simp
  have r: "call_handler stub_interp stub_host ''execute_code''
             (dict_get ?c ''params'' (JObj [])) default_scene
           = (Inl (Exc ''Code execution error: division by zero''), default_scene)"
    by (simp add: dict_get_def call_handler_def signature_of_simps bind_error_def
        handler_body_def execute_code_def stub_host_def stub_exec_def)
  have e: "is_Exception (Exc ''Code execution error: division by zero'')"
    by simp
  have n: "''nope'' \<notin> fst ` set (handlers default_scene)"
    unfolding default_handlers base_handlers_def fst_set_method by simp
  have u: "execute_command stub_interp stub_host default_scene (JObj [(''type'', JStr ''nope'')])
           = (Inr (JObj [(''status'', JStr ''error''),
                        (''message'', JStr ''Unknown command type: nope'')]), default_scene)"
    by (simp add: execute_command_def execute_command_internal_unknown [OF _ n] dict_get_def
        except_Exception_def error_response_def)
  show ?thesis
    using handler_exception_caught [OF t b r e, of "[JObj [(''type'', JStr ''nope'')]]"]
    by (simp add: u)
qed

lemma envelope_success: "envelope (success_response v)"
  by (simp add: envelope_def json_get_def success_response_def)

lemma envelope_error: "envelope (error_response m)"
  by (simp add: envelope_def json_get_def error_response_def)

lemma except_Exception_envelope:
  assumes "except_Exception py x = (Inr r, w')"
    and "\<And>v w. x = (Inr v, w) \<Longrightarrow> envelope v"
  shows "envelope r"
  using assms
  by (cases x; cases "fst x")
     (auto simp: except_Exception_def envelope_error split: if_splits)

lemma handler_result_envelope: "handler_result x = (Inr v, w) \<Longrightarrow> envelope v"
  by (cases x; cases "fst x") (auto simp: handler_result_def envelope_success)

lemma internal_envelope:
  assumes "execute_command_internal py co w command = (Inr r, w')"
  shows "envelope r"
proof (cases command)
  case (JObj c)
  show ?thesis
  proof (cases "handlers_get (handlers w) (dict_get c ''type'' JNull)")
    case (Inl e)
    with assms JObj show ?thesis
      by (simp add: execute_command_internal_def)
  next
    case (Inr h)
    show ?thesis
    proof (cases h)
      case None
      with assms JObj Inr show ?thesis
        by (auto simp: execute_command_internal_def envelope_error)
    next
      case (Some f)
      with assms JObj Inr have
        "except_Exception py (handler_result
           (call_handler py co f (dict_get c ''params'' (JObj [])) w)) = (Inr r, w')"
        by (simp add: execute_command_internal_def)
      then show ?thesis
        by (rule except_Exception_envelope) (rule handler_result_envelope)
    qed
  qed
qed (use assms in \<open>simp_all add: execute_command_internal_def\<close>)

section \<open>The envelope invariant\<close>

text \<open>
  Claim C4. Whatever the command (any decoded value, a \<^verbatim>\<open>dict\<close> or not), a response that
  \<^verbatim>\<open>execute_command\<close> returns has one of the two shapes of the envelope.
\<close>

theorem response_envelope:
  "execute_command py co w command = (Inr r, w') \<Longrightarrow> envelope r"
  unfolding execute_command_def
  by (erule except_Exception_envelope) (rule internal_envelope)

theorem response_envelope_witness:
  "execute_command stub_interp stub_host default_scene (JObj [(''type'', JStr ''nope'')])
   = (Inr (JObj [(''status'', JStr ''error''),
                (''message'', JStr ''Unknown command type: nope'')]), default_scene)
   \<and> envelope (JObj [(''status'', JStr ''error''),
                    (''message'', JStr ''Unknown command type: nope'')])"
proof -
  have n: "''nope'' \<notin> fst ` set (handlers default_scene)"
    unfolding default_handlers base_handlers_def fst_set_method by simp
  have u: "execute_command stub_interp stub_host default_scene (JObj [(''type'', JStr ''nope'')])
           = (Inr (JObj [(''status'', JStr ''error''),
                        (''message'', JStr ''Unknown command type: nope'')]), default_scene)"
    by (simp add: execute_command_def execute_command_internal_unknown [OF _ n] dict_get_def
        except_Exception_def error_response_def)
  show ?thesis
    using response_envelope [OF u] u by simp
qed

lemma keyword_error_unexpected:
  assumes "k \<in> set ks"
    and "k \<notin> set (required sg) \<union> set (optional sg)"
    and "\<not> var_keyword sg"
  shows "\<exists>k'. keyword_error f sg ks = Some (UnexpectedKeyword f k')
             \<or> keyword_error f sg ks = Some (MultipleValues f k')"
  using assms by (induction ks) auto

lemma keyword_error_cases:
  "keyword_error f sg ks = Some e \<Longrightarrow>
     \<exists>k. e = UnexpectedKeyword f k \<or> e = MultipleValues f k"
  by (induction ks) (auto split: if_splits)

lemma bind_error_fails:
  assumes "(\<exists>k \<in> set ks. k \<notin> set (required sg) \<union> set (optional sg) \<and> \<not> var_keyword sg)
           \<or> (\<exists>r \<in> set (required sg). r \<notin> set ks)"
  shows "\<exists>e. bind_error f sg ks = Some e
           \<and> ((\<exists>k. e = UnexpectedKeyword f k \<or> e = MultipleValues f k)
                \<or> (\<exists>rs. e = MissingArguments f rs))"
proof (cases "keyword_error f sg ks")
  case (Some e)
  then show ?thesis
    using keyword_error_cases [OF Some] by (auto simp: bind_error_def)
next
  case None
  with assms obtain r where r: "r \<in> set (required sg)" "r \<notin> set ks"
    using keyword_error_unexpected [of _ ks sg f] by fastforce
  then have "filter (\<lambda>r. r \<notin> set ks) (required sg) \<noteq> []"
    by (auto simp: filter_empty_conv)
  then show ?thesis
    using None by (auto simp: bind_error_def split: list.splits)
qed

section \<open>Parameter validation\<close>

text \<open>
  Claim C7, amended. Dispatch calls the handler with the params mapping expanded as keyword
  arguments. When the mapping has a key that the handler does not declare and the handler
  takes no \<^verbatim>\<open>**kwargs\<close>, or lacks a parameter the handler requires, binding raises a
  \<^verbatim>\<open>TypeError\<close>, the response is the error response with its description, and the host
  state is the one before the call: the body never ran (the collaborators do not occur
  in the result).
\<close>

theorem parameter_validation:
  assumes "dict_get c ''type'' JNull = JStr name"
    and "name \<in> fst ` set (handlers w)"
    and "dict_get c ''params'' (JObj []) = JObj kw"
    and "(\<exists>k \<in> set (map fst kw).
            k \<notin> set (required (signature_of name)) \<union> set (optional (signature_of name))
            \<and> \<not> var_keyword (signature_of name))
         \<or> (\<exists>r \<in> set (required (signature_of name)). r \<notin> set (map fst kw))"
  shows "\<exists>e. bind_error name (signature_of name) (map fst kw) = Some e
           \<and> ((\<exists>k. e = UnexpectedKeyword name k \<or> e = MultipleValues name k)
                \<or> (\<exists>rs. e = MissingArguments name rs))
           \<and> execute_command_internal py co w (JObj c)
             = (Inr (JObj [(''status'', JStr ''error''), (''message'', JStr (str_exn py e))]), w)"
proof -
  obtain e where e: "bind_error name (signature_of name) (map fst kw) = Some e"
    and k: "(\<exists>k. e = UnexpectedKeyword name k \<or> e = MultipleValues name k)
            \<or> (\<exists>rs. e = MissingArguments name rs)"
    using bind_error_fails [OF assms(4)] by blast
  have x: "is_Exception e"
    using k by auto
  have "call_handler py co name (dict_get c ''params'' (JObj [])) w = (Inl e, w)"
    by (simp add: call_handler_def assms(3) e)
  then have "execute_command_internal py co w (JObj c)
             = (Inr (JObj [(''status'', JStr ''error''), (''message'', JStr (str_exn py e))]), w)"
    using x
    by (simp add: execute_command_internal_known [OF assms(1,2)] handler_result_def
        except_Exception_def error_response_def)
  with e k show ?thesis by blast
qed


text \<open>
  Claim C7 as stated fails for \<^verbatim>\<open>add_modifier\<close>, which takes \<^verbatim>\<open>**kwargs\<close>: a key it does
  not know is bound, the body runs, and the scene has the new modifier.
\<close>

theorem add_modifier_accepts_unknown_key:
  "execute_command stub_interp stub_host default_scene
     (JObj [(''type'', JStr ''add_modifier''),
            (''params'', JObj [(''object_name'', JStr ''Cube''),
                               (''modifier_type'', JStr ''SUBSURF''),
                               (''bogus'', JInt 1)])])
   = (Inr (JObj [(''status'', JStr ''success''),
                (''result'', JObj [(''object'', JStr ''Cube''), (''modifier'', JStr ''SUBSURF''),
                                   (''type'', JStr ''SUBSURF'')])]),
      default_scene\<lparr>objects := [cube\<lparr>modifiers := [''SUBSURF'']\<rparr>]\<rparr>)"
proof -
  let ?c = "[(''type'', JStr ''add_modifier''),
             (''params'', JObj [(''object_name'', JStr ''Cube''),
                                (''modifier_type'', JStr ''SUBSURF''),
                                (''bogus'', JInt 1)])]"
  have t: "dict_get ?c ''type'' JNull = JStr ''add_modifier''"
    by (simp add: dict_get_def)
  have b: "''add_modifier'' \<in> fst ` set (handlers default_scene)"
    unfolding default_handlers base_handlers_def fst_set_method by simp
  have r: "call_handler stub_interp stub_host ''add_modifier''
             (dict_get ?c ''params'' (JObj [])) default_scene
           = (Inr (JObj [(''object'', JStr ''Cube''), (''modifier'', JStr ''SUBSURF''),
                         (''type'', JStr ''SUBSURF'')]),
              default_scene\<lparr>objects := [cube\<lparr>modifiers := [''SUBSURF'']\<rparr>]\<rparr>)"
    by (simp add: dict_get_def call_handler_def signature_of_simps bind_error_def
        handler_body_def stub_host_def stub_engine_def default_scene_def cube_def)
  show ?thesis
    by (simp add: execute_command_def execute_command_internal_known [OF t b] r
        handler_result_def except_Exception_def success_response_def)
qed

theorem parameter_validation_witness:
  "execute_command_internal stub_interp stub_host default_scene
     (JObj [(''type'', JStr ''delete_object''),
            (''params'', JObj [(''name'', JStr ''Cube''), (''bogus'', JInt 1)])])
   = (Inr (JObj [(''status'', JStr ''error''), (''message'', JStr ''TypeError'')]), default_scene)
   \<and> execute_command_internal stub_interp stub_host default_scene
     (JObj [(''type'', JStr ''add_modifier''),
            (''params'', JObj [(''object_name'', JStr ''Cube'')])])
   = (Inr (JObj [(''status'', JStr ''error''), (''message'', JStr ''TypeError'')]), default_scene)"
proof -
  let ?c = "[(''type'', JStr ''delete_object''),
             (''params'', JObj [(''name'', JStr ''Cube''), (''bogus'', JInt 1)])]"
  let ?d = "[(''type'', JStr ''add_modifier''),
             (''params'', JObj [(''object_name'', JStr ''Cube'')])]"
  have t: "dict_get ?c ''type'' JNull = JStr ''delete_object''"
          "dict_get ?d ''type'' JNull = JStr ''add_modifier''"
    by (simp_all add: dict_get_def)
  have b: "''delete_object'' \<in> fst ` set (handlers default_scene)"
          "''add_modifier'' \<in> fst ` set (handlers default_scene)"
    unfolding default_handlers base_handlers_def fst_set_method by simp_all
  have p: "dict_get ?c ''params'' (JObj []) = JObj [(''name'', JStr ''Cube''), (''bogus'', JInt 1)]"
          "dict_get ?d ''params'' (JObj []) = JObj [(''object_name'', JStr ''Cube'')]"
    by (simp_all add: dict_get_def)
  have h1: "(\<exists>k \<in> set (map fst [(''name'', JStr ''Cube''), (''bogus'', JInt 1)]).
              k \<notin> set (required (signature_of ''delete_object''))
                    \<union> set (optional (signature_of ''delete_object''))
              \<and> \<not> var_keyword (signature_of ''delete_object''))
           \<or> (\<exists>r \<in> set (required (signature_of ''delete_object'')).
                r \<notin> set (map fst [(''name'', JStr ''Cube''), (''bogus'', JInt 1)]))"
    by (simp add: signature_of_simps)
  have h2: "(\<exists>k \<in> set (map fst [(''object_name'', JStr ''Cube'')]).
              k \<notin> set (required (signature_of ''add_modifier''))
                    \<union> set (optional (signature_of ''add_modifier''))
              \<and> \<not> var_keyword (signature_of ''add_modifier''))
           \<or> (\<exists>r \<in> set (required (signature_of ''add_modifier'')).
                r \<notin> set (map fst [(''object_name'', JStr ''Cube'')]))"
    by (simp add: signature_of_simps)
  show ?thesis
    using parameter_validation [OF t(1) b(1) p(1) h1, of stub_interp stub_host]
      parameter_validation [OF t(2) b(2) p(2) h2, of stub_interp stub_host]
    by (auto simp: stub_interp_def)
qed

section \<open>Failures of the Asset Provider\<close>

text \<open>
  Claim C8, amended. When the request to the provider raises an \<^verbatim>\<open>Exception\<close>,
  \<^verbatim>\<open>get_polyhaven_categories\<close> and \<^verbatim>\<open>search_polyhaven_assets\<close> catch it themselves and
  return the mapping \<^verbatim>\<open>{"error": str(e)}\<close> as their result, which dispatch wraps in a
  response of status \<^verbatim>\<open>"success"\<close>; nothing propagates and the host state is unchanged.
\<close>

theorem polyhaven_failure_reported_in_result:
  assumes "blendermcp_use_polyhaven w"
    and "requests_get co = (\<lambda>url params. Inl e)"
    and "is_Exception e"
    and "t \<in> set [''hdris'', ''textures'', ''models'', ''all'']"
  shows "execute_command py co w
           (JObj [(''type'', JStr ''get_polyhaven_categories''),
                  (''params'', JObj [(''asset_type'', JStr t)])])
         = (Inr (JObj [(''status'', JStr ''success''),
                      (''result'', JObj [(''error'', JStr (str_exn py e))])]), w)
       \<and> execute_command py co w
           (JObj [(''type'', JStr ''search_polyhaven_assets''),
                  (''params'', JObj [(''asset_type'', JStr t)])])
         = (Inr (JObj [(''status'', JStr ''success''),
                      (''result'', JObj [(''error'', JStr (str_exn py e))])]), w)"
proof -
  have g: "''get_polyhaven_categories'' \<in> fst ` set (handlers w)"
    using assms(1) polyhaven_enabled_iff [of "''get_polyhaven_categories''" w]
    unfolding polyhaven_handlers_def fst_set_method by simp
  have s: "''search_polyhaven_assets'' \<in> fst ` set (handlers w)"
    using assms(1) polyhaven_enabled_iff [of "''search_polyhaven_assets''" w]
    unfolding polyhaven_handlers_def fst_set_method by simp
  have cg: "call_handler py co ''get_polyhaven_categories'' (JObj [(''asset_type'', JStr t)]) w
            = (Inr (JObj [(''error'', JStr (str_exn py e))]), w)"
    using assms(3,4)
    by (simp add: call_handler_def signature_of_simps bind_error_def handler_body_def
        dict_get_def get_polyhaven_categories_def assms(2) error_dict_def)
  have cs: "call_handler py co ''search_polyhaven_assets'' (JObj [(''asset_type'', JStr t)]) w
            = (Inr (JObj [(''error'', JStr (str_exn py e))]), w)"
    using assms(3,4)
    by (auto simp: call_handler_def signature_of_simps bind_error_def handler_body_def
        dict_get_def search_polyhaven_assets_def assms(2) error_dict_def Let_def)
  have "execute_command_internal py co w
           (JObj [(''type'', JStr ''get_polyhaven_categories''),
                  (''params'', JObj [(''asset_type'', JStr t)])])
         = (Inr (success_response (JObj [(''error'', JStr (str_exn py e))])), w)"
    by (subst execute_command_internal_known [OF _ g])
       (simp_all add: dict_get_def cg handler_result_def except_Exception_def)
  moreover have "execute_command_internal py co w
           (JObj [(''type'', JStr ''search_polyhaven_assets''),
                  (''params'', JObj [(''asset_type'', JStr t)])])
         = (Inr (success_response (JObj [(''error'', JStr (str_exn py e))])), w)"
    by (subst execute_command_internal_known [OF _ s])
       (simp_all add: dict_get_def cs handler_result_def except_Exception_def)
  ultimately show ?thesis
    by (simp add: execute_command_def except_Exception_def success_response_def)
qed


text \<open>
  Claim C8 as stated fails: with the provider unreachable, the response to
  \<^verbatim>\<open>get_polyhaven_categories\<close> has status \<^verbatim>\<open>"success"\<close>.
\<close>

theorem provider_failure_status_success:
  "execute_command stub_interp stub_host (default_scene\<lparr>blendermcp_use_polyhaven := True\<rparr>)
     (JObj [(''type'', JStr ''get_polyhaven_categories''),
            (''params'', JObj [(''asset_type'', JStr ''hdris'')])])
   = (Inr (JObj [(''status'', JStr ''success''),
                (''result'', JObj [(''error'', JStr ''Connection refused'')])]),
      default_scene\<lparr>blendermcp_use_polyhaven := True\<rparr>)"
proof -
  let ?w = "default_scene\<lparr>blendermcp_use_polyhaven := True\<rparr>"
  have g: "''get_polyhaven_categories'' \<in> fst ` set (handlers ?w)"
    using polyhaven_enabled_iff [of "''get_polyhaven_categories''" ?w]
    unfolding polyhaven_handlers_def fst_set_method by simp
  have c: "call_handler stub_interp stub_host ''get_polyhaven_categories''
             (JObj [(''asset_type'', JStr ''hdris'')]) ?w
           = (Inr (JObj [(''error'', JStr ''Connection refused'')]), ?w)"
    by (simp add: call_handler_def signature_of_simps bind_error_def handler_body_def
        dict_get_def get_polyhaven_categories_def stub_host_def stub_requests_def error_dict_def)
  have "execute_command_internal stub_interp stub_host ?w
          (JObj [(''type'', JStr ''get_polyhaven_categories''),
                 (''params'', JObj [(''asset_type'', JStr ''hdris'')])])
        = (Inr (success_response (JObj [(''error'', JStr ''Connection refused'')])), ?w)"
    by (subst execute_command_internal_known [OF _ g])
       (simp_all add: dict_get_def c handler_result_def except_Exception_def)
  then show ?thesis
    by (simp add: execute_command_def except_Exception_def success_response_def)
qed

theorem polyhaven_failure_reported_in_result_witness:
  "execute_command stub_interp stub_host (default_scene\<lparr>blendermcp_use_polyhaven := True\<rparr>)
     (JObj [(''type'', JStr ''search_polyhaven_assets''),
            (''params'', JObj [(''asset_type'', JStr ''textures'')])])
   = (Inr (JObj [(''status'', JStr ''success''),
                (''result'', JObj [(''error'', JStr ''Connection refused'')])]),
      default_scene\<lparr>blendermcp_use_polyhaven := True\<rparr>)"
proof -
  have a: "blendermcp_use_polyhaven (default_scene\<lparr>blendermcp_use_polyhaven := True\<rparr>)"
    by simp
  have b: "requests_get stub_host = (\<lambda>url params. Inl (Exc ''Connection refused''))"
    by (simp add: stub_host_def stub_requests_def fun_eq_iff)
  have c: "is_Exception (Exc ''Connection refused'')"
    by simp
  have d: "''textures'' \<in> set [''hdris'', ''textures'', ''models'', ''all'']"
    by simp
  show ?thesis
    using polyhaven_failure_reported_in_result [OF a b c d, of stub_interp]
    by simp
qed

section \<open>Scene information\<close>

text \<open>
  Claim C10. The \<^verbatim>\<open>objects\<close> list of \<^verbatim>\<open>get_scene_info\<close> holds the descriptions of the
  first ten objects of the scene, in scene order, so at most ten entries, while
  \<^verbatim>\<open>object_count\<close> is the number of all objects; with more than ten objects the count
  exceeds the length of the list.
\<close>

theorem scene_info_object_limit:
  "json_get (get_scene_info py w) ''objects''
     = Some (JList (map (obj_info py) (take 10 (objects w))))
   \<and> length (map (obj_info py) (take 10 (objects w))) \<le> 10
   \<and> json_get (get_scene_info py w) ''object_count'' = Some (JInt (int (length (objects w))))
   \<and> (10 < length (objects w) \<longrightarrow>
        length (map (obj_info py) (take 10 (objects w))) < length (objects w))"
  by (simp add: get_scene_info_def json_get_def)

theorem scene_info_object_limit_witness:
  "10 < length (objects (default_scene\<lparr>objects := replicate 11 cube\<rparr>))
   \<and> json_get (get_scene_info stub_interp (default_scene\<lparr>objects := replicate 11 cube\<rparr>))
        ''object_count'' = Some (JInt 11)
   \<and> json_get (get_scene_info stub_interp (default_scene\<lparr>objects := replicate 11 cube\<rparr>))
        ''objects'' = Some (JList (replicate 10 (obj_info stub_interp cube)))"
  using scene_info_object_limit [of stub_interp "default_scene\<lparr>objects := replicate 11 cube\<rparr>"]
  by (simp add: numeral_eq_Suc)

section \<open>Lifecycle\<close>

lemma start_running: "running p \<Longrightarrow> start oc p = p"
  by (simp add: start_def)

lemma stop_stop: "stop (stop p) = stop p"
  by (simp add: stop_def)

lemma stop_fields:
  "\<not> running (stop p)" "socket (stop p) = None" "server_thread (stop p) = None"
  by (simp_all add: stop_def)

text \<open>What holds of the server between any two calls:\<close>

lemma lifecycle_stopped_or_bound:
  assumes "if running p then \<exists>fd. socket p = Some fd \<and> listening p = [fd]
           else socket p = None \<and> server_thread p = None \<and> listening p = []"
  shows "if running (lifecycle p cs)
         then \<exists>fd. socket (lifecycle p cs) = Some fd \<and> listening (lifecycle p cs) = [fd]
         else socket (lifecycle p cs) = None \<and> server_thread (lifecycle p cs) = None
              \<and> listening (lifecycle p cs) = []"
  using assms
proof (induction cs arbitrary: p)
  case Nil
  then show ?case by simp
next
  case (Cons c cs)
  show ?case
  proof (cases c)
    case (Start oc)
    have "if running (start oc p)
          then \<exists>fd. socket (start oc p) = Some fd \<and> listening (start oc p) = [fd]
          else socket (start oc p) = None \<and> server_thread (start oc p) = None
               \<and> listening (start oc p) = []"
      using Cons.prems
      by (cases oc)
         (auto simp: start_def stop_def create_socket_def bind_listen_def start_thread_def
           split: if_splits)
    from Cons.IH [OF this] show ?thesis
      by (simp add: Start)
  next
    case Stop
    have "if running (stop p)
          then \<exists>fd. socket (stop p) = Some fd \<and> listening (stop p) = [fd]
          else socket (stop p) = None \<and> server_thread (stop p) = None \<and> listening (stop p) = []"
      using Cons.prems by (auto simp: stop_def split: if_splits)
    from Cons.IH [OF this] show ?thesis
      by (simp add: Stop)
  qed
qed

lemma stop_stopped:
  "\<not> running p \<Longrightarrow> socket p = None \<Longrightarrow> server_thread p = None \<Longrightarrow> stop p = p"
  by (simp add: stop_def)

text \<open>
  Claim C9. After any sequence of \<^verbatim>\<open>start\<close> and \<^verbatim>\<open>stop\<close> calls on a new server, whatever the
  outcome of each start: if the server is running, another \<^verbatim>\<open>start\<close> changes nothing and
  exactly one listener is bound; if it is not running, another \<^verbatim>\<open>stop\<close> changes nothing and
  no listener is bound. From any state at all, \<^verbatim>\<open>stop\<close> ends with the server stopped, and a
  second \<^verbatim>\<open>stop\<close> changes nothing.
\<close>

theorem lifecycle_idempotent:
  "(running (lifecycle new_server cs) \<longrightarrow>
      start oc (lifecycle new_server cs) = lifecycle new_server cs
      \<and> length (listening (lifecycle new_server cs)) = 1)
   \<and> (\<not> running (lifecycle new_server cs) \<longrightarrow>
      stop (lifecycle new_server cs) = lifecycle new_server cs
      \<and> listening (lifecycle new_server cs) = [])
   \<and> stop (stop p) = stop p
   \<and> \<not> running (stop p) \<and> socket (stop p) = None \<and> server_thread (stop p) = None"
proof -
  have "if running new_server then \<exists>fd. socket new_server = Some fd \<and> listening new_server = [fd]
        else socket new_server = None \<and> server_thread new_server = None
             \<and> listening new_server = []"
    by (simp add: new_server_def)
  from lifecycle_stopped_or_bound [OF this, of cs] show ?thesis
    by (auto simp: start_running stop_stop stop_fields stop_stopped split: if_splits)
qed

theorem lifecycle_idempotent_witness:
  "running (lifecycle new_server [Start Started])
   \<and> lifecycle new_server [Start Started, Start Started] = lifecycle new_server [Start Started]
   \<and> listening (lifecycle new_server [Start Started, Start Started]) = [0]
   \<and> \<not> running (lifecycle new_server [Start Started, Stop])
   \<and> lifecycle new_server [Start Started, Stop, Stop] = lifecycle new_server [Start Started, Stop]
   \<and> listening (lifecycle new_server [Start Started, Stop, Stop]) = []"
proof -
  have r: "running (lifecycle new_server [Start Started])"
    by (simp add: start_def new_server_def create_socket_def bind_listen_def start_thread_def)
  have s: "\<not> running (lifecycle new_server [Start Started, Stop])"
    by (simp add: stop_def)
  have l: "listening (lifecycle new_server [Start Started]) = [0]"
    by (simp add: start_def new_server_def create_socket_def bind_listen_def start_thread_def)
  show ?thesis
    using lifecycle_idempotent [of "[Start Started]" Started new_server]
      lifecycle_idempotent [of "[Start Started, Stop]" Started new_server] r s l
    by simp
qed

section \<open>The decoder on a text and its prefixes\<close>

lemma foldl_feed_Fail: "foldl feed Fail t = Fail"
  by (induction t) simp_all

lemma after_value_top:
  "after_value (CDone v) [] c = (if whitespace c then St (CDone v) [] else Fail)"
  by (simp add: after_value_def)

lemma foldl_feed_Done:
  "foldl feed (St (CDone v) []) t
   = (if \<forall>c \<in> set t. whitespace c then St (CDone v) [] else Fail)"
  by (induction t) (simp_all add: control_step_def after_value_top foldl_feed_Fail)

lemma finish_Done_run: "finish (foldl feed (St (CDone v) []) t) = Some x \<Longrightarrow> x = v"
  by (simp add: foldl_feed_Done split: if_splits)

lemma finish_Lit_run: "finish (foldl feed (St (CLit r v) []) t) = Some x \<Longrightarrow> x = v"
proof (induction t arbitrary: r)
  case Nil
  then show ?case by simp
next
  case (Cons c t)
  show ?case
  proof (cases r)
    case Nil
    with Cons.prems show ?thesis
      by (simp add: control_step_def literal_step_def foldl_feed_Fail)
  next
    case (Cons a rs)
    show ?thesis
    proof (cases "c = a")
      case False
      with Cons.prems \<open>r = a # rs\<close> show ?thesis
        by (simp add: control_step_def literal_step_def foldl_feed_Fail)
    next
      case True
      show ?thesis
      proof (cases "rs = []")
        case True
        with Cons.prems \<open>r = a # rs\<close> \<open>c = a\<close> show ?thesis
          by (simp add: control_step_def literal_step_def finish_Done_run)
      next
        case False
        with Cons.prems \<open>r = a # rs\<close> \<open>c = a\<close> show ?thesis
          using Cons.IH [of rs] by (simp add: control_step_def literal_step_def)
      qed
    qed
  qed
qed

lemma number_value_not_object: "number_value l ph \<noteq> JObj d"
  by (simp add: number_value_def split: list.splits)

lemma number_step_cases:
  "number_step l ph [] c = Fail
   \<or> (\<exists>l' ph'. number_step l ph [] c = St (CNum l' ph') [])
   \<or> number_step l ph [] c = St (CLit ''nfinity'' (JFloat ''-Infinity'')) []
   \<or> number_step l ph [] c = St (CDone (number_value l ph)) []"
  by (cases ph) (simp_all add: number_step_def Let_def after_number_def after_value_top)

lemma finish_Num_run:
  "finish (foldl feed (St (CNum l ph) []) t) = Some x \<Longrightarrow> x \<noteq> JObj d"
proof (induction t arbitrary: l ph)
  case Nil
  then show ?case
    by (auto simp: number_value_not_object split: if_splits)
next
  case (Cons c t)
  have s: "foldl feed (St (CNum l ph) []) (c # t) = foldl feed (number_step l ph [] c) t"
    by (simp add: control_step_def)
  from number_step_cases [of l ph c] show ?case
  proof (elim disjE exE)
    assume "number_step l ph [] c = Fail"
    with Cons.prems s show ?thesis
      by (simp add: foldl_feed_Fail)
  next
    fix l' ph'
    assume "number_step l ph [] c = St (CNum l' ph') []"
    with Cons.prems s show ?thesis
      using Cons.IH [of l' ph'] by simp
  next
    assume "number_step l ph [] c = St (CLit ''nfinity'' (JFloat ''-Infinity'')) []"
    with Cons.prems s have "x = JFloat ''-Infinity''"
      using finish_Lit_run [of "''nfinity''" "JFloat ''-Infinity''" t x] by simp
    then show ?thesis by simp
  next
    assume "number_step l ph [] c = St (CDone (number_value l ph)) []"
    with Cons.prems s have "x = number_value l ph"
      using finish_Done_run [of "number_value l ph" t x] by simp
    then show ?thesis
      by (simp add: number_value_not_object)
  qed
qed

lemma finish_Some:
  assumes "finish st = Some v"
  shows "st = St (CDone v) [] \<or> (\<exists>l ph. st = St (CNum l ph) [])"
proof (cases st)
  case Fail
  with assms show ?thesis by simp
next
  case (St q fs)
  show ?thesis
  proof (cases fs)
    case Nil
    with assms St show ?thesis
      by (cases q) (simp_all split: if_splits)
  next
    case (Cons a fs')
    with assms St show ?thesis
      by (cases q) simp_all
  qed
qed

lemma json_loads_prefix:
  assumes "json_loads (p @ t) = Some (JObj d)"
    and "json_loads p = Some v"
  shows "v = JObj d \<and> (\<forall>c \<in> set t. whitespace c)"
proof -
  let ?st = "foldl feed (St CValue []) p"
  have w: "finish (foldl feed ?st t) = Some (JObj d)"
    using assms(1) by (simp add: json_loads_def)
  have "finish ?st = Some v"
    using assms(2) by (simp add: json_loads_def)
  then consider "?st = St (CDone v) []" | l ph where "?st = St (CNum l ph) []"
    using finish_Some by blast
  then show ?thesis
  proof cases
    case 1
    with w show ?thesis
      by (simp add: foldl_feed_Done split: if_splits)
  next
    case 2
    with w show ?thesis
      using finish_Num_run [of l ph t "JObj d" d] by simp
  qed
qed

lemma json_loads_whitespace:
  assumes "t \<noteq> []" and "\<forall>c \<in> set t. whitespace c"
  shows "json_loads t = None"
proof -
  have "foldl feed (St CValue []) t = St CValue []"
    using assms(2) by (induction t) (simp_all add: control_step_def)
  then show ?thesis
    by (simp add: json_loads_def)
qed

lemma whitespace_ascii: "whitespace c \<Longrightarrow> in_range c 0x00 0x7F"
  by (auto simp: whitespace_def in_range_def)

lemma utf8_valid_whitespace: "\<forall>c \<in> set t. whitespace c \<Longrightarrow> utf8_valid t"
  by (induction t) (simp_all add: whitespace_ascii)


section \<open>Partial delivery\<close>

lemma recv_step_Data:
  "data \<noteq> [] \<Longrightarrow>
   recv_step cn (Data data)
   = (if utf8_valid (buffer cn @ data)
      then (case json_loads (buffer cn @ data) of
              None \<Rightarrow> Continue (cn\<lparr>buffer := buffer cn @ data\<rparr>)
            | Some command \<Rightarrow>
                Continue (cn\<lparr>buffer := [], submitted := submitted cn @ [command]\<rparr>))
      else Break (cn\<lparr>buffer := buffer cn @ data\<rparr>))"
  by (simp add: recv_step_def decode_utf8_def Let_def split: option.splits)

text \<open>
  Claim C5, amended. Let a byte sequence decode to a Command (a JSON object), and split it
  into two chunks, neither empty, the first well-formed UTF-8 on its own. Fed in order to
  a new connection, the two chunks give exactly one submitted Command, the one that the
  whole sequence gives in one chunk, and the connection stays open. The buffer is empty
  afterwards when the first chunk alone does not decode; otherwise the first chunk was
  already the whole document, and the second, which is whitespace only, stays in the
  buffer.
\<close>

theorem two_chunk_delivery:
  assumes "utf8_valid bs"
    and "json_loads bs = Some (JObj d)"
    and "0 < k" and "k < length bs"
    and "utf8_valid (take k bs)"
  shows "handle_client new_conn [Data bs]
         = \<lparr>buffer = [], submitted = [JObj d], closed = False\<rparr>
       \<and> handle_client new_conn [Data (take k bs), Data (drop k bs)]
         = \<lparr>buffer = (if json_loads (take k bs) = None then [] else drop k bs),
            submitted = [JObj d], closed = False\<rparr>
       \<and> (json_loads (take k bs) = None \<or> (\<forall>c \<in> set (drop k bs). whitespace c))"
proof -
  let ?p = "take k bs" and ?t = "drop k bs"
  have ne: "bs \<noteq> []" "?p \<noteq> []" "?t \<noteq> []"
    using assms(3,4) by auto
  have whole: "handle_client new_conn [Data bs]
               = \<lparr>buffer = [], submitted = [JObj d], closed = False\<rparr>"
    using assms(1,2) by (simp add: recv_step_Data [OF ne(1)] new_conn_def)
  show ?thesis
  proof (cases "json_loads ?p")
    case None
    have 1: "recv_step new_conn (Data ?p) = Continue (new_conn\<lparr>buffer := ?p\<rparr>)"
      using assms(5) None by (simp add: recv_step_Data [OF ne(2)] new_conn_def)
    have 2: "recv_step (new_conn\<lparr>buffer := ?p\<rparr>) (Data ?t)
             = Continue \<lparr>buffer = [], submitted = [JObj d], closed = False\<rparr>"
      using assms(1,2) by (simp add: recv_step_Data [OF ne(3)] new_conn_def)
    show ?thesis
      using whole None by (simp add: 1 2)
  next
    case (Some v)
    have "json_loads (?p @ ?t) = Some (JObj d)"
      using assms(2) by simp
    from json_loads_prefix [OF this Some]
    have v: "v = JObj d" and ws: "\<forall>c \<in> set ?t. whitespace c"
      by simp_all
    have 1: "recv_step new_conn (Data ?p)
             = Continue \<lparr>buffer = [], submitted = [JObj d], closed = False\<rparr>"
      using assms(5) Some v by (simp add: recv_step_Data [OF ne(2)] new_conn_def)
    have 2: "recv_step \<lparr>buffer = [], submitted = [JObj d], closed = False\<rparr> (Data ?t)
             = Continue \<lparr>buffer = ?t, submitted = [JObj d], closed = False\<rparr>"
      using utf8_valid_whitespace [OF ws] json_loads_whitespace [OF ne(3) ws]
      by (simp add: recv_step_Data [OF ne(3)])
    show ?thesis
      using whole Some ws by (simp add: 1 2)
  qed
qed

text \<open>
  Claim C5 as stated fails on its last clause: a Command followed by a line feed, split
  before the line feed, leaves the line feed in the buffer.
\<close>

theorem trailing_newline_stays_in_buffer:
  \<open>handle_client new_conn [Data ''{"type":"get_scene_info"}\<newline>'']
   = \<lparr>buffer = [], submitted = [JObj [(''type'', JStr ''get_scene_info'')]], closed = False\<rparr>
   \<and> handle_client new_conn [Data ''{"type":"get_scene_info"}'', Data ''\<newline>'']
   = \<lparr>buffer = ''\<newline>'', submitted = [JObj [(''type'', JStr ''get_scene_info'')]],
      closed = False\<rparr>\<close>
  by code_simp

theorem two_chunk_delivery_witness:
  \<open>handle_client new_conn [Data ''{"type":"get_sc'', Data ''ene_info"}'']
   = \<lparr>buffer = [], submitted = [JObj [(''type'', JStr ''get_scene_info'')]], closed = False\<rparr>\<close>
proof -
  have a: \<open>utf8_valid ''{"type":"get_scene_info"}''\<close>
    by code_simp
  have b: \<open>json_loads ''{"type":"get_scene_info"}'' = Some (JObj [(''type'', JStr ''get_scene_info'')])\<close>
    by code_simp
  have c: \<open>(0::nat) < 15\<close> \<open>15 < length ''{"type":"get_scene_info"}''\<close>
    by simp_all
  have t: \<open>take 15 ''{"type":"get_scene_info"}'' = ''{"type":"get_sc''\<close>
          \<open>drop 15 ''{"type":"get_scene_info"}'' = ''ene_info"}''\<close>
    by code_simp+
  have e: \<open>utf8_valid (take 15 ''{"type":"get_scene_info"}'')\<close>
    unfolding t by code_simp
  have n: \<open>json_loads ''{"type":"get_sc'' = None\<close>
    by code_simp
  show ?thesis
    using two_chunk_delivery [OF a b c e] by (simp add: t n)
qed

section \<open>Buffers that do not decode\<close>

text \<open>
  A buffer that is well-formed UTF-8 and that \<^verbatim>\<open>json.loads\<close> rejects is kept, with the new
  bytes at its end; nothing is submitted and the loop goes on.
\<close>

lemma json_error_keeps_buffer:
  assumes "data \<noteq> []"
    and "utf8_valid (buffer cn @ data)"
    and "json_loads (buffer cn @ data) = None"
  shows "recv_step cn (Data data) = Continue (cn\<lparr>buffer := buffer cn @ data\<rparr>)"
  using assms(2,3) by (simp add: recv_step_Data [OF assms(1)])

text \<open>
  Claim C6 at a buffer that is an incomplete prefix of a valid Command: the read ends
  inside the two bytes of a character. \<^verbatim>\<open>buffer.decode\<close> raises \<^verbatim>\<open>UnicodeDecodeError\<close>,
  which \<^verbatim>\<open>except json.JSONDecodeError\<close> does not catch; the handler leaves its loop and
  closes the connection, and the rest of the Command is never read. In one chunk the
  same bytes decode.
\<close>

theorem split_character_closes_connection:
  \<open>handle_client new_conn [Data (''{"type":"caf'' @ [CHR 0xC3, CHR 0xA9] @ ''"}'')]
   = \<lparr>buffer = [], submitted = [JObj [(''type'', JStr (''caf'' @ [CHR 0xC3, CHR 0xA9]))]],
      closed = False\<rparr>
   \<and> handle_client new_conn [Data (''{"type":"caf'' @ [CHR 0xC3]), Data ([CHR 0xA9] @ ''"}'')]
   = \<lparr>buffer = ''{"type":"caf'' @ [CHR 0xC3], submitted = [], closed = True\<rparr>\<close>
  by code_simp

end
